theory Spec2Isabelle
  imports Complex_Main "HOL-Library.Sublist"
begin

section \<open>JavaScript values\<close>

text \<open>
  The value \<^verbatim>\<open>JSON.parse\<close> hands to the import code is untyped (\<^verbatim>\<open>any\<close>), so it is
  modelled as a JSON tree. A number is held as its value, a rational as every finite
  double is, together with its canonical JavaScript rendering (what \<^verbatim>\<open>String(n)\<close> gives);
  a literal beyond the range of a double, which parses to an infinity, is left out. An
  object is the list of its own properties, whose names are distinct in a parsed value.
\<close>

datatype json =
    JNull
  | JBool bool
  | JNum rat string
  | JStr string
  | JArr "json list"
  | JObj "(string \<times> json) list"

text \<open>Reading a property \<^verbatim>\<open>v.name\<close> of a value that is not \<^verbatim>\<open>null\<close>: \<open>None\<close> is
  \<^verbatim>\<open>undefined\<close>. (On \<^verbatim>\<open>null\<close> the read throws; the callers below test for it first.)\<close>

fun get_prop :: "json \<Rightarrow> string \<Rightarrow> json option" where
  "get_prop (JObj fs) name = map_of fs name"
| "get_prop _ name = None"

text \<open>The truthiness test of \<^verbatim>\<open>if (v)\<close>.\<close>

fun truthy :: "json option \<Rightarrow> bool" where
  "truthy None = False"
| "truthy (Some JNull) = False"
| "truthy (Some (JBool b)) = b"
| "truthy (Some (JNum v t)) = (v \<noteq> 0)"
| "truthy (Some (JStr s)) = (s \<noteq> [])"
| "truthy (Some (JArr xs)) = True"
| "truthy (Some (JObj fs)) = True"

fun join :: "string \<Rightarrow> string list \<Rightarrow> string" where
  "join sep [] = []"
| "join sep [x] = x"
| "join sep (x # y # ys) = x @ sep @ join sep (y # ys)"

text \<open>The string conversion \<^verbatim>\<open>localStorage.setItem\<close> applies to its value argument.\<close>

fun ToString :: "json \<Rightarrow> string" where
  "ToString JNull = ''null''"
| "ToString (JBool b) = (if b then ''true'' else ''false'')"
| "ToString (JNum v t) = t"
| "ToString (JStr s) = s"
| "ToString (JArr xs) = join '','' (map (\<lambda>x. if x = JNull then [] else ToString x) xs)"
| "ToString (JObj fs) = ''[object Object]''"

section \<open>The object store of IndexedDB\<close>

text \<open>
  An object store created with \<^verbatim>\<open>{ keyPath: 'id' }\<close> holds at most one record per key
  and hands its records out in ascending order of their keys. It is modelled as the list
  of its records in that order; \<open>key\<close> extracts a record's key, \<open>None\<close> when the record has
  no usable key, in which case \<^verbatim>\<open>put\<close> raises \<^verbatim>\<open>DataError\<close>; \<open>lt\<close> is the order of the
  keys. \<^verbatim>\<open>put\<close> replaces the record that has the same key, or adds the record at its
  place in the order. \<^verbatim>\<open>getAll\<close> returns the records in the order of the list.
\<close>

definition key_before :: "('k \<Rightarrow> 'k \<Rightarrow> bool) \<Rightarrow> ('r \<Rightarrow> 'k option) \<Rightarrow> 'r \<Rightarrow> 'r \<Rightarrow> bool" where
  "key_before lt key a b =
     (case key a of
        None \<Rightarrow> False
      | Some ka \<Rightarrow> (case key b of None \<Rightarrow> False | Some kb \<Rightarrow> lt ka kb))"

fun store_insert :: "('k \<Rightarrow> 'k \<Rightarrow> bool) \<Rightarrow> ('r \<Rightarrow> 'k option) \<Rightarrow> 'r \<Rightarrow> 'r list \<Rightarrow> 'r list" where
  "store_insert lt key r [] = [r]"
| "store_insert lt key r (x # xs) =
     (if key x = key r then r # xs
      else if key_before lt key r x then r # x # xs
      else x # store_insert lt key r xs)"

definition store_put ::
  "('k \<Rightarrow> 'k \<Rightarrow> bool) \<Rightarrow> ('r \<Rightarrow> 'k option) \<Rightarrow> 'r \<Rightarrow> 'r list \<Rightarrow> 'r list option" where
  "store_put lt key r s =
     (case key r of
        None \<Rightarrow> None
      | Some k \<Rightarrow> Some (store_insert lt key r s))"

definition store_delete :: "('r \<Rightarrow> 'k option) \<Rightarrow> 'k \<Rightarrow> 'r list \<Rightarrow> 'r list" where
  "store_delete key k s = filter (\<lambda>x. key x \<noteq> Some k) s"

definition store_clear :: "'r list \<Rightarrow> 'r list" where
  "store_clear s = []"

definition store_getAll :: "'r list \<Rightarrow> 'r list" where
  "store_getAll s = s"

text \<open>\<^verbatim>\<open>get(k)\<close>: the record stored under key \<open>k\<close>.\<close>

definition store_get :: "('r \<Rightarrow> 'k option) \<Rightarrow> 'k \<Rightarrow> 'r list \<Rightarrow> 'r option" where
  "store_get key k s = find (\<lambda>x. key x = Some k) s"

text \<open>What the store guarantees of its own contents: every record has a key, and the
  records stand in strictly ascending order of their keys.\<close>

definition store_ok :: "('k \<Rightarrow> 'k \<Rightarrow> bool) \<Rightarrow> ('r \<Rightarrow> 'k option) \<Rightarrow> 'r list \<Rightarrow> bool" where
  "store_ok lt key s =
     (list_all (\<lambda>r. key r \<noteq> None) s \<and> sorted_wrt (key_before lt key) s)"

text \<open>The order of two strings as keys: by code units, a proper prefix first. (The
  characters of the model are single bytes, which is what the ids of the program, made of
  digits and ASCII letters, consist of.)\<close>

fun str_less :: "string \<Rightarrow> string \<Rightarrow> bool" where
  "str_less [] [] = False"
| "str_less [] (y # ys) = True"
| "str_less (x # xs) [] = False"
| "str_less (x # xs) (y # ys) =
     ((of_char x :: nat) < of_char y \<or> (x = y \<and> str_less xs ys))"

text \<open>Keys of records that come from JSON: a number, a string, or an array of keys.
  A number is below a string, a string below an array; numbers are ordered by value,
  strings as above, arrays entry by entry, a proper prefix first.\<close>

datatype key = KNum rat | KStr string | KArr "key list"

fun key_of :: "json \<Rightarrow> key option" where
  "key_of (JNum v t) = Some (KNum v)"
| "key_of (JStr s) = Some (KStr s)"
| "key_of (JArr ks) = map_option KArr (those (map key_of ks))"
| "key_of _ = None"

fun key_less :: "key \<Rightarrow> key \<Rightarrow> bool" and keys_less :: "key list \<Rightarrow> key list \<Rightarrow> bool" where
  "key_less (KNum a) (KNum b) = (a < b)"
| "key_less (KNum a) (KStr b) = True"
| "key_less (KNum a) (KArr b) = True"
| "key_less (KStr a) (KNum b) = False"
| "key_less (KStr a) (KStr b) = str_less a b"
| "key_less (KStr a) (KArr b) = True"
| "key_less (KArr a) (KNum b) = False"
| "key_less (KArr a) (KStr b) = False"
| "key_less (KArr a) (KArr b) = keys_less a b"
| "keys_less [] [] = False"
| "keys_less [] (y # ys) = True"
| "keys_less (x # xs) [] = False"
| "keys_less (x # xs) (y # ys) = (key_less x y \<or> (x = y \<and> keys_less xs ys))"

definition keyPath_id :: "json \<Rightarrow> key option" where
  "keyPath_id v =
     (case get_prop v ''id'' of
        None \<Rightarrow> None
      | Some k \<Rightarrow> key_of k)"

text \<open>
  The loop \<^verbatim>\<open>for (const item of materials) store.put(item)\<close> within its transaction.
  The loop stops at the first \<^verbatim>\<open>put\<close> that raises. A \<^verbatim>\<open>put\<close> that does not raise issues
  a request, which the database carries out later; \<open>fails\<close> holds of a record when the
  database fails the request to store it (for lack of space, say). Such a request raises
  nothing in the loop: its error event, for which the imports install no handler, aborts
  the transaction, and every change made in the transaction is undone. The result is the
  content of the store once the requests issued are carried out, \<open>None\<close> when the
  transaction is aborted, and whether the loop ran to its end.
\<close>

fun put_each :: "(json \<Rightarrow> bool) \<Rightarrow> json list \<Rightarrow> json list \<Rightarrow> json list option \<times> bool" where
  "put_each fails [] s = (Some s, True)"
| "put_each fails (item # items) s =
     (case store_put key_less keyPath_id item s of
        None \<Rightarrow> (Some s, False)
      | Some s' \<Rightarrow>
          (case put_each fails items s' of
             (result, finished) \<Rightarrow> (if fails item then None else result, finished)))"

section \<open>The browser session\<close>

datatype alert =
    SyncFileDownloaded
  | SyncFileError
  | SyncCompleted
  | SyncFileInvalid
  | RestoreCompleted
  | BackupFileInvalid
  | BackupReadError

datatype file_read = ReadError | Malformed | Parsed json

text \<open>
  \<open>localStorage\<close> is the key-value flag store; \<open>materialsDB\<close> is the object store
  \<^verbatim>\<open>materials\<close> of the database \<^verbatim>\<open>ProLensDB\<close>; \<open>indexedDB_ok\<close> tells whether
  \<^verbatim>\<open>openDB()\<close> resolves; \<open>db_fails\<close> holds of a record when the database fails the
  request to store it. The other fields record what the handlers do to the page:
  the alerts shown, the lines written with \<^verbatim>\<open>console.error\<close>, the files offered for
  download (name and content, the content as the value its text parses to), the number of
  page reloads, and the component state. \<^verbatim>\<open>localStorage.setItem\<close> is taken to succeed.
\<close>

record browser =
  localStorage :: "string \<Rightarrow> string option"
  materialsDB :: "json list"
  indexedDB_ok :: bool
  db_fails :: "json \<Rightarrow> bool"
  alerts :: "alert list"
  console :: "string list"
  downloads :: "(string \<times> json) list"
  reloads :: nat
  isBackingUp :: bool
  isRestoring :: bool
  registrations :: json

definition getItem :: "string \<Rightarrow> browser \<Rightarrow> string option" where
  "getItem key st = localStorage st key"

definition setItem :: "string \<Rightarrow> string \<Rightarrow> browser \<Rightarrow> browser" where
  "setItem key v st = st\<lparr>localStorage := (localStorage st)(key \<mapsto> v)\<rparr>"

section \<open>Student sync: export and import\<close>

definition item_json :: "string option \<Rightarrow> json" where
  "item_json v = (case v of None \<Rightarrow> JNull | Some s \<Rightarrow> JStr s)"

definition syncData_of :: "string \<Rightarrow> browser \<Rightarrow> json" where
  "syncData_of stamp st =
     JObj [(''timestamp'', JStr stamp),
           (''profile'', item_json (getItem ''prolens_student_profile'' st)),
           (''messages'', item_json (getItem ''prolens_messages'' st)),
           (''completedTopics'', item_json (getItem ''prolens_completed_topics'' st)),
           (''myRegistration'', item_json (getItem ''prolens_my_registration'' st)),
           (''materials'', JArr (store_getAll (materialsDB st)))]"

text \<open>\<^verbatim>\<open>handleExport\<close>: \<open>stamp\<close> and \<open>day\<close> are the two readings of
  \<^verbatim>\<open>new Date().toISOString()\<close>.\<close>

definition handleExport :: "string \<Rightarrow> string \<Rightarrow> browser \<Rightarrow> browser" where
  "handleExport stamp day st =
     (if indexedDB_ok st
      then st\<lparr>downloads := downloads st @
                  [(''prolens_sync_'' @ take 10 day @ ''.json'', syncData_of stamp st)],
              alerts := alerts st @ [SyncFileDownloaded],
              isBackingUp := False\<rparr>
      else st\<lparr>console := console st @ [''Backup failed''],
              alerts := alerts st @ [SyncFileError],
              isBackingUp := False\<rparr>)"

text \<open>\<^verbatim>\<open>if (data.field) localStorage.setItem(key, data.field)\<close>\<close>

definition restore_flag :: "json \<Rightarrow> string \<Rightarrow> string \<Rightarrow> browser \<Rightarrow> browser" where
  "restore_flag data field key st =
     (case get_prop data field of
        None \<Rightarrow> st
      | Some v \<Rightarrow> if truthy (Some v) then setItem key (ToString v) st else st)"

definition materials_of :: "json \<Rightarrow> json list" where
  "materials_of data = (case get_prop data ''materials'' of Some (JArr items) \<Rightarrow> items | _ \<Rightarrow> [])"

text \<open>The \<^verbatim>\<open>catch\<close> block of an import.\<close>

definition import_failed :: "string \<Rightarrow> alert \<Rightarrow> browser \<Rightarrow> browser" where
  "import_failed line msg st =
     st\<lparr>console := console st @ [line], alerts := alerts st @ [msg], isRestoring := False\<rparr>"

text \<open>
  Clearing the store and writing the bundle's materials in one transaction. The handler
  \<^verbatim>\<open>tx.oncomplete\<close> is installed after the loop, so it runs when the loop ran to its end
  and the transaction commits. A \<^verbatim>\<open>put\<close> that raises takes the import to its \<^verbatim>\<open>catch\<close>
  block; the transaction then commits what was requested before. When the transaction is
  aborted the store is as it was before the import, and neither handler nor \<^verbatim>\<open>catch\<close>
  block runs for it: nothing is shown, and the flag \<open>isRestoring\<close> stays as it is.
\<close>

definition repopulate :: "string \<Rightarrow> alert \<Rightarrow> alert \<Rightarrow> json \<Rightarrow> browser \<Rightarrow> browser" where
  "repopulate line bad done data st =
     (if \<not> indexedDB_ok st then import_failed line bad st
      else case put_each (db_fails st) (materials_of data) (store_clear (materialsDB st)) of
             (Some stored, True) \<Rightarrow>
               st\<lparr>materialsDB := stored, alerts := alerts st @ [done], reloads := Suc (reloads st)\<rparr>
           | (Some stored, False) \<Rightarrow> import_failed line bad (st\<lparr>materialsDB := stored\<rparr>)
           | (None, True) \<Rightarrow> st
           | (None, False) \<Rightarrow> import_failed line bad st)"

text \<open>\<^verbatim>\<open>handleImport\<close> of the student sync dialog. \<open>file\<close> is the chosen file, if any, as
  the outcome of reading and parsing it; \<open>confirmed\<close> is the answer to
  \<^verbatim>\<open>window.confirm\<close>. The write of \<^verbatim>\<open>prolens_user_role\<close> stands in the source under the
  comment \<^verbatim>\<open>Also restore role to student if missing\<close>; the statement has no condition.\<close>

definition handleImport :: "file_read option \<Rightarrow> bool \<Rightarrow> browser \<Rightarrow> browser" where
  "handleImport file confirmed st =
     (case file of
        None \<Rightarrow> st
      | Some content \<Rightarrow>
          if \<not> confirmed then st
          else
            (case content of
               ReadError \<Rightarrow> st\<lparr>isRestoring := True\<rparr>
             | Malformed \<Rightarrow> import_failed ''Restore failed'' SyncFileInvalid (st\<lparr>isRestoring := True\<rparr>)
             | Parsed syncData \<Rightarrow>
                 if syncData = JNull
                 then import_failed ''Restore failed'' SyncFileInvalid (st\<lparr>isRestoring := True\<rparr>)
                 else
                   repopulate ''Restore failed'' SyncFileInvalid SyncCompleted syncData
                     (setItem ''prolens_user_role'' ''student''
                       (restore_flag syncData ''myRegistration'' ''prolens_my_registration''
                         (restore_flag syncData ''completedTopics'' ''prolens_completed_topics''
                           (restore_flag syncData ''messages'' ''prolens_messages''
                             (restore_flag syncData ''profile'' ''prolens_student_profile''
                               (st\<lparr>isRestoring := True\<rparr>))))))))"

section \<open>Admin backup: import\<close>

text \<open>\<^verbatim>\<open>handleImportBackup\<close> of the admin dashboard. \<open>stringify\<close> is
  \<^verbatim>\<open>JSON.stringify\<close>; the chosen file comes with its size in bytes, and \<open>confirmed\<close>
  answers the question asked for a file above 100MB.\<close>

definition restore_registrations :: "(json \<Rightarrow> string) \<Rightarrow> json \<Rightarrow> browser \<Rightarrow> browser" where
  "restore_registrations stringify data st =
     (case get_prop data ''registrations'' of
        None \<Rightarrow> st
      | Some v \<Rightarrow>
          if truthy (Some v)
          then (setItem ''prolens_registrations'' (stringify v) st)\<lparr>registrations := v\<rparr>
          else st)"

definition handleImportBackup ::
  "(json \<Rightarrow> string) \<Rightarrow> (nat \<times> file_read) option \<Rightarrow> bool \<Rightarrow> browser \<Rightarrow> browser" where
  "handleImportBackup stringify file confirmed st =
     (case file of
        None \<Rightarrow> st
      | Some (bytes, content) \<Rightarrow>
          if bytes > 100 * (1024 * 1024) \<and> \<not> confirmed then st
          else
            (case content of
               ReadError \<Rightarrow> st\<lparr>alerts := alerts st @ [BackupReadError], isRestoring := False\<rparr>
             | Malformed \<Rightarrow>
                 import_failed ''Restore failed'' BackupFileInvalid (st\<lparr>isRestoring := True\<rparr>)
             | Parsed backupData \<Rightarrow>
                 if backupData = JNull
                 then import_failed ''Restore failed'' BackupFileInvalid (st\<lparr>isRestoring := True\<rparr>)
                 else
                   repopulate ''Restore failed'' BackupFileInvalid RestoreCompleted backupData
                     (restore_registrations stringify backupData
                       (restore_flag backupData ''completedTopics'' ''prolens_completed_topics''
                         (restore_flag backupData ''messages'' ''prolens_messages''
                           (restore_flag backupData ''announcement'' ''prolens_announcement''
                             (st\<lparr>isRestoring := True\<rparr>)))))))"

text \<open>The bundle fields the two imports restore, each with the flag key it is written to.\<close>

definition sync_fields :: "(string \<times> string) list" where
  "sync_fields =
     [(''profile'', ''prolens_student_profile''),
      (''messages'', ''prolens_messages''),
      (''completedTopics'', ''prolens_completed_topics''),
      (''myRegistration'', ''prolens_my_registration'')]"

definition backup_fields :: "(string \<times> string) list" where
  "backup_fields =
     [(''announcement'', ''prolens_announcement''),
      (''messages'', ''prolens_messages''),
      (''completedTopics'', ''prolens_completed_topics''),
      (''registrations'', ''prolens_registrations'')]"

section \<open>The cloud service\<close>

datatype material_kind = Text | Image | Audio | Video

text \<open>\<^verbatim>\<open>LearningMaterial\<close>, and the same without its id
  (\<^verbatim>\<open>Omit<LearningMaterial, 'id'>\<close>), which is what a Firestore document holds. The
  optional fields are options.\<close>

record material_data =
  d_type :: material_kind
  d_name :: string
  d_content :: string
  d_mimeType :: "string option"
  d_isAnalyzed :: "bool option"

record LearningMaterial =
  mat_id :: string
  mat_type :: material_kind
  mat_name :: string
  mat_content :: string
  mimeType :: "string option"
  isAnalyzed :: "bool option"

definition with_id :: "string \<Rightarrow> material_data \<Rightarrow> LearningMaterial" where
  "with_id i d =
     \<lparr>mat_id = i, mat_type = d_type d, mat_name = d_name d, mat_content = d_content d,
      mimeType = d_mimeType d, isAnalyzed = d_isAnalyzed d\<rparr>"

datatype cloud_call =
    UploadBytes string
  | GetDownloadURL string
  | AddDoc material_data
  | DeleteDoc string
  | DeleteObject string
  | UpdateDoc string bool

datatype error =
    NotConfigured string
  | Rejected cloud_call
  | NotFound string
  | DatabaseUnavailable
  | FileUnreadable

text \<open>
  The module state of the service and the backend behind it: the compiled-in \<open>apiKey\<close>;
  whether the handles \<^verbatim>\<open>db\<close> and \<^verbatim>\<open>storage\<close> were set at module load; the documents of
  the collection \<^verbatim>\<open>materials\<close>, oldest first, each with its id; the download URLs of the
  stored objects; the requests made to the backend, in order; which requests the backend
  rejects; the download URL the backend gives for a storage path; the lines written with
  \<^verbatim>\<open>console.error\<close>.
\<close>

record cloud =
  apiKey :: string
  db :: bool
  storage :: bool
  docs :: "(string \<times> material_data) list"
  blobs :: "string list"
  calls :: "cloud_call list"
  rejects :: "cloud_call \<Rightarrow> bool"
  download_url :: "string \<Rightarrow> string"
  cloud_console :: "string list"

definition isFirebaseConfigured :: "cloud \<Rightarrow> bool" where
  "isFirebaseConfigured cl = (apiKey cl \<noteq> ''YOUR_API_KEY_HERE'')"

record File =
  file_name :: string
  file_type :: string
  file_size :: nat
  file_data :: "string option"

definition uploadFileToCloud :: "string \<Rightarrow> File \<Rightarrow> cloud \<Rightarrow> (error + string) \<times> cloud" where
  "uploadFileToCloud now f cl =
     (if \<not> storage cl then (Inl (NotConfigured ''Firebase storage not configured''), cl)
      else
        let path = ''materials/'' @ now @ ''_'' @ file_name f;
            cl1 = cl\<lparr>calls := calls cl @ [UploadBytes path]\<rparr>
        in if rejects cl (UploadBytes path) then (Inl (Rejected (UploadBytes path)), cl1)
           else
             let cl2 = cl1\<lparr>blobs := blobs cl1 @ [download_url cl path],
                           calls := calls cl1 @ [GetDownloadURL path]\<rparr>
             in if rejects cl (GetDownloadURL path)
                then (Inl (Rejected (GetDownloadURL path)), cl2)
                else (Inr (download_url cl path), cl2))"

text \<open>\<open>new_id\<close> is the id Firestore gives the new document.\<close>

definition addMaterialToCloud :: "string \<Rightarrow> material_data \<Rightarrow> cloud \<Rightarrow> error option \<times> cloud" where
  "addMaterialToCloud new_id material cl =
     (if \<not> db cl then (Some (NotConfigured ''Firebase DB not configured''), cl)
      else
        let cl1 = cl\<lparr>calls := calls cl @ [AddDoc material]\<rparr>
        in if rejects cl (AddDoc material) then (Some (Rejected (AddDoc material)), cl1)
           else (None, cl1\<lparr>docs := docs cl1 @ [(new_id, material)]\<rparr>))"

definition deleteMaterialFromCloud :: "string \<Rightarrow> string option \<Rightarrow> cloud \<Rightarrow> error option \<times> cloud" where
  "deleteMaterialFromCloud i fileUrl cl =
     (if \<not> db cl then (Some (NotConfigured ''Firebase DB not configured''), cl)
      else
        let cl1 = cl\<lparr>calls := calls cl @ [DeleteDoc i]\<rparr>
        in if rejects cl (DeleteDoc i) then (Some (Rejected (DeleteDoc i)), cl1)
           else
             let cl2 = cl1\<lparr>docs := filter (\<lambda>d. fst d \<noteq> i) (docs cl1)\<rparr>
             in case fileUrl of
                  None \<Rightarrow> (None, cl2)
                | Some url \<Rightarrow>
                    if url \<noteq> [] \<and> sublist ''firebasestorage'' url \<and> storage cl
                    then
                      let cl3 = cl2\<lparr>calls := calls cl2 @ [DeleteObject url]\<rparr>
                      in if rejects cl (DeleteObject url)
                         then (None, cl3\<lparr>cloud_console := cloud_console cl3 @
                                          [''Error deleting file from storage:'']\<rparr>)
                         else (None, cl3\<lparr>blobs := filter (\<lambda>b. b \<noteq> url) (blobs cl3)\<rparr>)
                    else (None, cl2))"

text \<open>\<^verbatim>\<open>updateDoc\<close> is rejected for a document that does not exist.\<close>

definition updateMaterialAnalysis :: "string \<Rightarrow> bool \<Rightarrow> cloud \<Rightarrow> error option \<times> cloud" where
  "updateMaterialAnalysis i analyzed cl =
     (if \<not> db cl then (None, cl)
      else
        let cl1 = cl\<lparr>calls := calls cl @ [UpdateDoc i analyzed]\<rparr>
        in if rejects cl (UpdateDoc i analyzed) then (Some (Rejected (UpdateDoc i analyzed)), cl1)
           else if i \<notin> fst ` set (docs cl) then (Some (NotFound i), cl1)
           else (None, cl1\<lparr>docs := map (\<lambda>d. if fst d = i
                                              then (fst d, (snd d)\<lparr>d_isAnalyzed := Some analyzed\<rparr>)
                                              else d) (docs cl1)\<rparr>))"

text \<open>The snapshot a subscriber is called with: every document, newest first.\<close>

definition snapshot :: "cloud \<Rightarrow> LearningMaterial list" where
  "snapshot cl = map (\<lambda>d. with_id (fst d) (snd d)) (rev (docs cl))"

section \<open>The learning box\<close>

datatype lb_alert = FileTooLarge string | DeleteFailed

datatype save_status = Idle | Saving | Saved | SaveError

text \<open>
  The component state and what it works on: the flag \<open>isCloudConfigured\<close>; the list
  \<open>materials\<close> shown; the object store \<^verbatim>\<open>materials\<close> of \<^verbatim>\<open>ProLensDB\<close> and whether
  \<^verbatim>\<open>openDB()\<close> resolves; the cloud service; the alerts shown and the console lines.
  In the learning box and on the course page a request to the object store, once issued,
  is taken to succeed.
\<close>

record learning_box =
  isCloudConfigured :: bool
  materials :: "LearningMaterial list"
  localDB :: "LearningMaterial list"
  localDB_ok :: bool
  firebase :: cloud
  lb_alerts :: "lb_alert list"
  lb_console :: "string list"
  saveStatus :: save_status

definition material_key :: "LearningMaterial \<Rightarrow> string option" where
  "material_key m = Some (mat_id m)"

definition put_material :: "LearningMaterial \<Rightarrow> LearningMaterial list \<Rightarrow> LearningMaterial list" where
  "put_material m s = (case store_put str_less material_key m s of Some s' \<Rightarrow> s' | None \<Rightarrow> s)"

definition saveMaterialToLocalDB :: "LearningMaterial \<Rightarrow> learning_box \<Rightarrow> error option \<times> learning_box" where
  "saveMaterialToLocalDB m st =
     (if \<not> localDB_ok st then (Some DatabaseUnavailable, st)
      else (None, st\<lparr>localDB := put_material m (localDB st)\<rparr>))"

definition deleteMaterialFromLocalDB :: "string \<Rightarrow> learning_box \<Rightarrow> error option \<times> learning_box" where
  "deleteMaterialFromLocalDB i st =
     (if \<not> localDB_ok st then (Some DatabaseUnavailable, st)
      else (None, st\<lparr>localDB := store_delete material_key i (localDB st)\<rparr>))"

text \<open>The effect run when the component mounts.\<close>

definition loadMaterials :: "learning_box \<Rightarrow> learning_box" where
  "loadMaterials st =
     (if isFirebaseConfigured (firebase st)
      then st\<lparr>isCloudConfigured := True,
              materials := (if db (firebase st) then snapshot (firebase st) else materials st)\<rparr>
      else if localDB_ok st
        then st\<lparr>isCloudConfigured := False, materials := store_getAll (localDB st)\<rparr>
        else st\<lparr>isCloudConfigured := False,
                lb_console := lb_console st @ [''DB load error'']\<rparr>)"

text \<open>\<^verbatim>\<open>markMaterialsAsAnalyzed\<close>: the two loops, then the function. The function is
  made anew in every render and reads \<^verbatim>\<open>materials\<close> as that render had it: \<open>rendered\<close> is
  that list, which the local branch maps over and hands to \<^verbatim>\<open>setMaterials\<close>. It is
  the list of the state when no other update of the list came in between.\<close>

fun mark_in_cloud :: "LearningMaterial list \<Rightarrow> cloud \<Rightarrow> error option \<times> cloud" where
  "mark_in_cloud [] cl = (None, cl)"
| "mark_in_cloud (m # ms) cl =
     (if isAnalyzed m \<noteq> Some True
      then (case updateMaterialAnalysis (mat_id m) True cl of
              (Some e, cl') \<Rightarrow> (Some e, cl')
            | (None, cl') \<Rightarrow> mark_in_cloud ms cl')
      else mark_in_cloud ms cl)"

fun save_marked :: "LearningMaterial list \<Rightarrow> learning_box \<Rightarrow> error option \<times> learning_box" where
  "save_marked [] st = (None, st)"
| "save_marked (m # ms) st =
     (case saveMaterialToLocalDB (m\<lparr>isAnalyzed := Some True\<rparr>) st of
        (Some e, st') \<Rightarrow> (Some e, st')
      | (None, st') \<Rightarrow> save_marked ms st')"

definition markMaterialsAsAnalyzed ::
  "LearningMaterial list \<Rightarrow> LearningMaterial list \<Rightarrow> learning_box \<Rightarrow>
     error option \<times> learning_box" where
  "markMaterialsAsAnalyzed rendered materialsToMark st =
     (if isCloudConfigured st
      then (case mark_in_cloud materialsToMark (firebase st) of
              (r, cl) \<Rightarrow> (r, st\<lparr>firebase := cl\<rparr>))
      else save_marked materialsToMark
             (st\<lparr>materials :=
                   map (\<lambda>m. if \<exists>tm \<in> set materialsToMark. mat_id tm = mat_id m
                             then m\<lparr>isAnalyzed := Some True\<rparr> else m)
                     rendered\<rparr>))"

text \<open>
  \<^verbatim>\<open>processFiles\<close>. Each file comes with what the environment supplies while it is
  processed: the two readings of \<^verbatim>\<open>Date.now()\<close> (in the upload and in the loop body), the
  rendering of \<^verbatim>\<open>Math.random()\<close>, and the id Firestore gives a document added for it.
  \<open>process_one\<close> is the loop body: the material pushed to \<^verbatim>\<open>newMaterials\<close> if any, whether
  the \<^verbatim>\<open>catch\<close> block ran, and the state. What follows the loop in the source (handing the
  new materials to the assignment chat, choosing the tab) works on the chat and is left
  out; the chat marks materials through \<open>markMaterialsAsAnalyzed\<close>.
\<close>

record tick =
  upload_now :: string
  now :: string
  random :: string
  new_doc_id :: string

definition kind_of :: "string \<Rightarrow> material_kind" where
  "kind_of mime =
     (if prefix ''image/'' mime then Image
      else if prefix ''audio/'' mime then Audio
      else if prefix ''video/'' mime then Video
      else Text)"

definition save_failed :: "learning_box \<Rightarrow> LearningMaterial option \<times> bool \<times> learning_box" where
  "save_failed st = (None, True, st\<lparr>lb_console := lb_console st @ [''Error saving file'']\<rparr>)"

definition process_one ::
  "File \<Rightarrow> tick \<Rightarrow> learning_box \<Rightarrow> LearningMaterial option \<times> bool \<times> learning_box" where
  "process_one f t st =
     (if isCloudConfigured st
      then (case uploadFileToCloud (upload_now t) f (firebase st) of
              (Inl e, cl) \<Rightarrow> save_failed (st\<lparr>firebase := cl\<rparr>)
            | (Inr downloadURL, cl) \<Rightarrow>
                let materialData =
                      \<lparr>d_type = kind_of (file_type f), d_name = file_name f,
                       d_content = downloadURL, d_mimeType = Some (file_type f),
                       d_isAnalyzed = Some False\<rparr>
                in (case addMaterialToCloud (new_doc_id t) materialData cl of
                      (Some e, cl') \<Rightarrow> save_failed (st\<lparr>firebase := cl'\<rparr>)
                    | (None, cl') \<Rightarrow>
                        (Some (with_id (''temp_'' @ now t) materialData), False,
                         st\<lparr>firebase := cl'\<rparr>)))
      else if file_size f > 15 * 1024 * 1024
        then (None, False, st\<lparr>lb_alerts := lb_alerts st @ [FileTooLarge (file_name f)]\<rparr>)
      else (case file_data f of
              None \<Rightarrow> save_failed st
            | Some base64Content \<Rightarrow>
                let materialData =
                      \<lparr>mat_id = now t @ random t, mat_type = kind_of (file_type f),
                       mat_name = file_name f, mat_content = base64Content,
                       mimeType = Some (file_type f), isAnalyzed = Some False\<rparr>
                in (case saveMaterialToLocalDB materialData st of
                      (Some e, st') \<Rightarrow> save_failed st'
                    | (None, st') \<Rightarrow>
                        (Some materialData, False,
                         st'\<lparr>materials := materialData # materials st'\<rparr>))))"

fun process_each ::
  "(File \<times> tick) list \<Rightarrow> learning_box \<Rightarrow> LearningMaterial list \<times> bool \<times> learning_box" where
  "process_each [] st = ([], False, st)"
| "process_each ((f, t) # files) st =
     (case process_one f t st of
        (new, err, st') \<Rightarrow>
          (case process_each files st' of
             (news, errs, st'') \<Rightarrow>
               ((case new of None \<Rightarrow> news | Some m \<Rightarrow> m # news), err \<or> errs, st'')))"

definition processFiles ::
  "(File \<times> tick) list \<Rightarrow> learning_box \<Rightarrow> LearningMaterial list \<times> learning_box" where
  "processFiles files st =
     (case process_each files (st\<lparr>saveStatus := Saving\<rparr>) of
        (newMaterials, hasError, st') \<Rightarrow>
          (newMaterials, st'\<lparr>saveStatus := (if hasError then SaveError else Saved)\<rparr>))"

definition delete_failed :: "learning_box \<Rightarrow> learning_box" where
  "delete_failed st =
     st\<lparr>lb_console := lb_console st @ [''Failed to delete''],
        lb_alerts := lb_alerts st @ [DeleteFailed]\<rparr>"

definition removeMaterial :: "string \<Rightarrow> string \<Rightarrow> bool \<Rightarrow> learning_box \<Rightarrow> learning_box" where
  "removeMaterial i contentUrl confirmed st =
     (if \<not> confirmed then st
      else if isCloudConfigured st
        then (case deleteMaterialFromCloud i (Some contentUrl) (firebase st) of
                (Some e, cl) \<Rightarrow> delete_failed (st\<lparr>firebase := cl\<rparr>)
              | (None, cl) \<Rightarrow> st\<lparr>firebase := cl\<rparr>)
      else (case deleteMaterialFromLocalDB i st of
              (Some e, st') \<Rightarrow> delete_failed st'
            | (None, st') \<Rightarrow> st'\<lparr>materials := filter (\<lambda>m. mat_id m \<noteq> i) (materials st')\<rparr>))"

section \<open>Presentations\<close>

record PresentationDoc =
  doc_id :: string
  doc_name :: string
  doc_type :: string
  doc_date :: string
  doc_content :: string

datatype course_alert = PresentationTooLarge | PresentationSaveFailed | PresentationReadFailed

text \<open>The state of the course page: the list shown, the object store \<^verbatim>\<open>presentations\<close> of
  \<^verbatim>\<open>ProLensContentDB\<close>, whether \<^verbatim>\<open>saveToDB\<close> resolves, the upload flag, the alerts and the
  console lines.\<close>

record course_page =
  presentations :: "PresentationDoc list"
  contentDB :: "PresentationDoc list"
  contentDB_ok :: bool
  isUploading :: bool
  course_alerts :: "course_alert list"
  course_console :: "string list"

definition presentation_key :: "PresentationDoc \<Rightarrow> string option" where
  "presentation_key d = Some (doc_id d)"

definition saveToDB :: "PresentationDoc \<Rightarrow> course_page \<Rightarrow> error option \<times> course_page" where
  "saveToDB d st =
     (if \<not> contentDB_ok st then (Some DatabaseUnavailable, st)
      else (None, st\<lparr>contentDB := (case store_put str_less presentation_key d (contentDB st) of
                                     Some s' \<Rightarrow> s' | None \<Rightarrow> contentDB st)\<rparr>))"

text \<open>\<^verbatim>\<open>handleFileChange\<close> of the course page; \<open>stamp\<close> is \<^verbatim>\<open>Date.now().toString()\<close> and
  \<open>today\<close> the localized date.\<close>

definition handleFileChange :: "File option \<Rightarrow> string \<Rightarrow> string \<Rightarrow> course_page \<Rightarrow> course_page" where
  "handleFileChange chosen stamp today st =
     (case chosen of
        None \<Rightarrow> st
      | Some f \<Rightarrow>
          if file_size f > 50 * 1024 * 1024
          then st\<lparr>course_alerts := course_alerts st @ [PresentationTooLarge]\<rparr>
          else
            (case file_data f of
               None \<Rightarrow>
                 st\<lparr>course_alerts := course_alerts st @ [PresentationReadFailed],
                    isUploading := False\<rparr>
             | Some content \<Rightarrow>
                 let newDoc = \<lparr>doc_id = stamp, doc_name = file_name f, doc_type = file_type f,
                               doc_date = today, doc_content = content\<rparr>
                 in (case saveToDB newDoc (st\<lparr>isUploading := True\<rparr>) of
                       (Some e, st') \<Rightarrow>
                         st'\<lparr>course_console := course_console st' @ [''Error saving file''],
                             course_alerts := course_alerts st' @ [PresentationSaveFailed],
                             isUploading := False\<rparr>
                     | (None, st') \<Rightarrow>
                         st'\<lparr>presentations := presentations st' @ [newDoc],
                             isUploading := False\<rparr>)))"

section \<open>Registrations\<close>

datatype reg_status = Pending | Contacted

record Registration =
  reg_id :: string
  reg_date :: string
  fullName :: string
  email :: string
  phone :: string
  level :: string
  status :: reg_status

record reg_form =
  form_fullName :: string
  form_email :: string
  form_phone :: string
  form_level :: string

record manual_form =
  manual_name :: string
  manual_phone :: string
  manual_email :: string

datatype reg_alert = NameAndPhoneRequired | StudentAdded

text \<open>
  The flag keys \<^verbatim>\<open>prolens_registrations\<close> and \<^verbatim>\<open>prolens_my_registration\<close> hold JSON text;
  they are modelled by the values the text stands for (\<open>None\<close>: the key is absent), since
  \<^verbatim>\<open>JSON.parse\<close> gives back what \<^verbatim>\<open>JSON.stringify\<close> was given for a list of registrations.
  \<open>admin_registrations\<close> is the list held by the admin dashboard, \<open>manualReg\<close> its entry
  form.
\<close>

record registry =
  prolens_registrations :: "Registration list option"
  prolens_my_registration :: "Registration option"
  regSubmitted :: bool
  admin_registrations :: "Registration list"
  manualReg :: manual_form
  isAddingManual :: bool
  reg_alerts :: "reg_alert list"

text \<open>\<^verbatim>\<open>handleRegistration\<close> of the login screen (self-registration).\<close>

definition handleRegistration :: "reg_form \<Rightarrow> string \<Rightarrow> string \<Rightarrow> registry \<Rightarrow> registry" where
  "handleRegistration regData stamp today st =
     (let newReg = \<lparr>reg_id = stamp, reg_date = today, fullName = form_fullName regData,
                    email = form_email regData, phone = form_phone regData,
                    level = form_level regData, status = Pending\<rparr>;
          st1 = st\<lparr>prolens_my_registration := Some newReg\<rparr>;
          existingRegs = (case prolens_registrations st1 of None \<Rightarrow> [] | Some rs \<Rightarrow> rs);
          st2 = (if \<not> (\<exists>r \<in> set existingRegs. phone r = phone newReg)
                 then st1\<lparr>prolens_registrations := Some (existingRegs @ [newReg])\<rparr>
                 else st1)
      in st2\<lparr>regSubmitted := True\<rparr>)"

text \<open>\<^verbatim>\<open>addManualRegistration\<close> of the admin dashboard.\<close>

definition addManualRegistration :: "string \<Rightarrow> string \<Rightarrow> registry \<Rightarrow> registry" where
  "addManualRegistration stamp today st =
     (if manual_name (manualReg st) = [] \<or> manual_phone (manualReg st) = []
      then st\<lparr>reg_alerts := reg_alerts st @ [NameAndPhoneRequired]\<rparr>
      else
        let newReg = \<lparr>reg_id = stamp, reg_date = today, fullName = manual_name (manualReg st),
                      email = manual_email (manualReg st), phone = manual_phone (manualReg st),
                      level = ''manual'', status = Pending\<rparr>;
            updatedRegs = admin_registrations st @ [newReg]
        in st\<lparr>admin_registrations := updatedRegs,
              prolens_registrations := Some updatedRegs,
              manualReg := \<lparr>manual_name = [], manual_phone = [], manual_email = []\<rparr>,
              isAddingManual := False,
              reg_alerts := reg_alerts st @ [StudentAdded]\<rparr>)"

text \<open>Typing into the entry form.\<close>

definition setManualReg :: "manual_form \<Rightarrow> registry \<Rightarrow> registry" where
  "setManualReg form st = st\<lparr>manualReg := form\<rparr>"

section \<open>Notions used in the properties\<close>

text \<open>The registrations stored under \<^verbatim>\<open>prolens_registrations\<close>, none when the key is absent.\<close>

definition stored_registrations :: "registry \<Rightarrow> Registration list" where
  "stored_registrations st = (case prolens_registrations st of None \<Rightarrow> [] | Some rs \<Rightarrow> rs)"

text \<open>The flags an import has written from the bundle \<open>data\<close> read, in the state \<open>st\<close>,
  as the import wrote them: for each field of the list \<open>named\<close> that holds a truthy value, the
  flag key of the field reads the value as \<open>render\<close> turns it into text.\<close>

definition flags_restored ::
  "(string \<times> string) list \<Rightarrow> (string \<Rightarrow> json \<Rightarrow> string) \<Rightarrow> json \<Rightarrow> browser \<Rightarrow> bool" where
  "flags_restored named render data st =
     list_all (\<lambda>fk. truthy (get_prop data (fst fk)) \<longrightarrow>
                      getItem (snd fk) st = Some (render (fst fk) (the (get_prop data (fst fk)))))
       named"

text \<open>The upload requests among the requests made to the backend.\<close>

fun is_upload :: "cloud_call \<Rightarrow> bool" where
  "is_upload (UploadBytes path) = True"
| "is_upload _ = False"

definition upload_of :: "File \<times> tick \<Rightarrow> cloud_call" where
  "upload_of ft = UploadBytes (''materials/'' @ upload_now (snd ft) @ ''_'' @ file_name (fst ft))"

text \<open>No record of \<open>after\<close> has lost the mark: a record whose id belongs to an analysed
  record of \<open>before\<close> is analysed.\<close>

definition keeps_analyzed :: "LearningMaterial list \<Rightarrow> LearningMaterial list \<Rightarrow> bool" where
  "keeps_analyzed before after =
     list_all (\<lambda>a. list_ex (\<lambda>b. mat_id b = mat_id a \<and> isAnalyzed b = Some True) before
                      \<longrightarrow> isAnalyzed a = Some True) after"

text \<open>Ids are unique within the local store, within the list shown, and within the cloud
  collection.\<close>

definition ids_unique :: "learning_box \<Rightarrow> bool" where
  "ids_unique st =
     (distinct (map mat_id (localDB st)) \<and> distinct (map mat_id (materials st)) \<and>
      distinct (map fst (docs (firebase st))))"

text \<open>The ids the environment supplies for a file are new.\<close>

definition fresh_tick :: "learning_box \<Rightarrow> tick \<Rightarrow> bool" where
  "fresh_tick st t =
     (now t @ random t \<notin> mat_id ` set (localDB st) \<and>
      now t @ random t \<notin> mat_id ` set (materials st) \<and>
      new_doc_id t \<notin> fst ` set (docs (firebase st)))"

text \<open>Between two states no material has lost the mark where it is stored: in the local
  store and in the cloud collection.\<close>

definition stored_step :: "learning_box \<Rightarrow> learning_box \<Rightarrow> bool" where
  "stored_step st st' =
     (keeps_analyzed (localDB st) (localDB st') \<and>
      keeps_analyzed (snapshot (firebase st)) (snapshot (firebase st')))"

text \<open>The same, and none has lost it in the list shown.\<close>

definition monotone_step :: "learning_box \<Rightarrow> learning_box \<Rightarrow> bool" where
  "monotone_step st st' =
     (stored_step st st' \<and> keeps_analyzed (materials st) (materials st'))"

section \<open>Sample data\<close>

definition sample_material :: json where
  "sample_material =
     JObj [(''id'', JStr ''1700000000000.42''), (''name'', JStr ''notes.txt''),
           (''type'', JStr ''text''), (''content'', JStr ''data:text/plain;base64,aGk=''),
           (''mimeType'', JStr ''text/plain''), (''isAnalyzed'', JBool True)]"

definition admin_session :: browser where
  "admin_session =
     \<lparr>localStorage = [''prolens_user_role'' \<mapsto> ''admin'', ''prolens_messages'' \<mapsto> ''[]''],
      materialsDB = [sample_material],
      indexedDB_ok = True,
      db_fails = (\<lambda>r. False),
      alerts = [],
      console = [],
      downloads = [],
      reloads = 0,
      isBackingUp = False,
      isRestoring = False,
      registrations = JArr []\<rparr>"

definition only_materials :: json where
  "only_materials = JObj [(''materials'', JArr [])]"

definition sample_stamp :: string where
  "sample_stamp = ''2026-01-01T00:00:00.000Z''"

definition other_material :: json where
  "other_material =
     JObj [(''id'', JStr ''1700000000001.07''), (''name'', JStr ''photo.png''),
           (''type'', JStr ''image''), (''content'', JStr ''data:image/png;base64,AAAA''),
           (''mimeType'', JStr ''image/png''), (''isAnalyzed'', JBool False)]"

definition broken_bundle :: json where
  "broken_bundle =
     JObj [(''timestamp'', JStr sample_stamp),
           (''materials'', JArr [other_material, JObj [(''name'', JStr ''no id'')],
                                 sample_material])]"

text \<open>A second material, a bundle that holds it after \<open>other_material\<close>, and a session
  whose database has no room for it.\<close>

definition large_material :: json where
  "large_material =
     JObj [(''id'', JStr ''1700000000002.55''), (''name'', JStr ''lecture.mp4''),
           (''type'', JStr ''video''), (''content'', JStr ''data:video/mp4;base64,AAAA''),
           (''mimeType'', JStr ''video/mp4''), (''isAnalyzed'', JBool False)]"

definition large_bundle :: json where
  "large_bundle =
     JObj [(''timestamp'', JStr sample_stamp),
           (''messages'', JStr ''[1]''),
           (''materials'', JArr [other_material, large_material])]"

definition full_session :: browser where
  "full_session = admin_session\<lparr>db_fails := (\<lambda>r. r = large_material)\<rparr>"

text \<open>An older copy of \<open>sample_material\<close>, from before it was analysed, and a bundle that
  holds it.\<close>

definition stale_material :: json where
  "stale_material =
     JObj [(''id'', JStr ''1700000000000.42''), (''name'', JStr ''notes.txt''),
           (''type'', JStr ''text''), (''content'', JStr ''data:text/plain;base64,aGk=''),
           (''mimeType'', JStr ''text/plain''), (''isAnalyzed'', JBool False)]"

definition stale_bundle :: json where
  "stale_bundle =
     JObj [(''timestamp'', JStr sample_stamp),
           (''materials'', JArr [stale_material])]"

definition student_session :: browser where
  "student_session =
     \<lparr>localStorage = [''prolens_user_role'' \<mapsto> ''student'',
                      ''prolens_completed_topics'' \<mapsto> ''[portrait]''],
      materialsDB = [sample_material, other_material],
      indexedDB_ok = True,
      db_fails = (\<lambda>r. False),
      alerts = [],
      console = [],
      downloads = [],
      reloads = 0,
      isBackingUp = False,
      isRestoring = False,
      registrations = JArr []\<rparr>"

definition empty_registry :: registry where
  "empty_registry =
     \<lparr>prolens_registrations = None,
      prolens_my_registration = None,
      regSubmitted = False,
      admin_registrations = [],
      manualReg = \<lparr>manual_name = [], manual_phone = [], manual_email = []\<rparr>,
      isAddingManual = True,
      reg_alerts = []\<rparr>"

definition dana_form :: reg_form where
  "dana_form =
     \<lparr>form_fullName = ''Dana'', form_email = ''dana@example.org'',
      form_phone = ''050-1234567'', form_level = ''beginner''\<rparr>"

definition dana_manual :: manual_form where
  "dana_manual =
     \<lparr>manual_name = ''Dana'', manual_phone = ''050-1234567'', manual_email = []\<rparr>"

definition sample_url :: string where
  "sample_url = ''https://firebasestorage.googleapis.com/v0/b/demo/o/photo.png''"

text \<open>A configured backend that holds one document and rejects every blob deletion.\<close>

definition sample_cloud :: cloud where
  "sample_cloud =
     \<lparr>apiKey = ''AIzaSy-demo'',
      db = True,
      storage = True,
      docs = [(''docA'', \<lparr>d_type = Image, d_name = ''photo.png'', d_content = sample_url,
                          d_mimeType = Some ''image/png'', d_isAnalyzed = Some False\<rparr>)],
      blobs = [sample_url],
      calls = [],
      rejects = (\<lambda>c. case c of DeleteObject u \<Rightarrow> True | _ \<Rightarrow> False),
      download_url = (\<lambda>path. ''https://firebasestorage.googleapis.com/v0/b/demo/o/'' @ path),
      cloud_console = []\<rparr>"

definition unconfigured_cloud :: cloud where
  "unconfigured_cloud =
     \<lparr>apiKey = ''YOUR_API_KEY_HERE'',
      db = False,
      storage = False,
      docs = [],
      blobs = [],
      calls = [],
      rejects = (\<lambda>c. False),
      download_url = (\<lambda>path. path),
      cloud_console = []\<rparr>"

definition big_file :: File where
  "big_file =
     \<lparr>file_name = ''lecture.mp4'', file_type = ''video/mp4'',
      file_size = 20 * 1024 * 1024, file_data = Some ''data:video/mp4;base64,AAAA''\<rparr>"

definition sample_tick :: tick where
  "sample_tick =
     \<lparr>upload_now = ''1700000000000'', now = ''1700000000001'', random = ''0.42'',
      new_doc_id = ''docB''\<rparr>"

definition analyzed_material :: LearningMaterial where
  "analyzed_material =
     \<lparr>mat_id = ''m1'', mat_type = Text, mat_name = ''intro.txt'', mat_content = ''hello'',
      mimeType = Some ''text/plain'', isAnalyzed = Some True\<rparr>"

definition fresh_material :: LearningMaterial where
  "fresh_material =
     \<lparr>mat_id = ''m2'', mat_type = Text, mat_name = ''notes.txt'', mat_content = ''more'',
      mimeType = Some ''text/plain'', isAnalyzed = Some False\<rparr>"

definition local_box :: learning_box where
  "local_box =
     \<lparr>isCloudConfigured = False,
      materials = [analyzed_material, fresh_material],
      localDB = [analyzed_material, fresh_material],
      localDB_ok = True,
      firebase = unconfigured_cloud,
      lb_alerts = [],
      lb_console = [],
      saveStatus = Idle\<rparr>"

definition cloud_box :: learning_box where
  "cloud_box =
     \<lparr>isCloudConfigured = True,
      materials = [],
      localDB = [],
      localDB_ok = True,
      firebase = sample_cloud,
      lb_alerts = [],
      lb_console = [],
      saveStatus = Idle\<rparr>"

definition empty_course :: course_page where
  "empty_course =
     \<lparr>presentations = [],
      contentDB = [],
      contentDB_ok = True,
      isUploading = False,
      course_alerts = [],
      course_console = []\<rparr>"

section \<open>Properties of the object store\<close>

lemma store_insert_get:
  assumes "key r = Some k"
  shows "store_get key k' (store_insert lt key r s) = (if k' = k then Some r else store_get key k' s)"
  using assms by (induction s) (auto simp: store_get_def)

lemma store_put_get:
  assumes "store_put lt key r s = Some s'"
  shows "store_get key k' s' = (if key r = Some k' then Some r else store_get key k' s)"
proof -
  from assms obtain k where k: "key r = Some k" and s': "s' = store_insert lt key r s"
    by (auto simp: store_put_def split: option.splits)
  show ?thesis
    unfolding s' using k store_insert_get [of key r k k' lt s] by auto
qed

lemma store_insert_subset: "set (store_insert lt key r s) \<subseteq> insert r (set s)"
  by (induction s) auto

lemma store_insert_length:
  "key r \<notin> set (map key s) \<Longrightarrow> length (store_insert lt key r s) = Suc (length s)"
  by (induction s) auto

lemma store_insert_present:
  assumes asym: "\<And>a b. lt a b \<Longrightarrow> \<not> lt b a"
  shows "store_ok lt key s \<Longrightarrow> r \<in> set s \<Longrightarrow> store_insert lt key r s = s"
proof (induction s)
  case Nil
  then show ?case by simp
next
  case (Cons x xs)
  from Cons.prems(1) have ok: "store_ok lt key xs"
    and later: "\<And>y. y \<in> set xs \<Longrightarrow> key_before lt key x y"
    by (simp_all add: store_ok_def)
  show ?case
  proof (cases "r = x")
    case True
    then show ?thesis by simp
  next
    case False
    with Cons.prems(2) have r: "r \<in> set xs" by simp
    from later [OF r] obtain kx kr where k: "key x = Some kx" "key r = Some kr" "lt kx kr"
      by (auto simp: key_before_def split: option.splits)
    from asym [OF k(3)] have n: "\<not> lt kr kx" .
    with k asym [of kx kx] have "key x \<noteq> key r" "\<not> key_before lt key r x"
      by (auto simp: key_before_def)
    with Cons.IH [OF ok r] show ?thesis by simp
  qed
qed

lemma str_less_asym: "str_less a b \<Longrightarrow> \<not> str_less b a"
  by (induction a b rule: str_less.induct) auto

lemma str_less_trans: "str_less a b \<Longrightarrow> str_less b c \<Longrightarrow> str_less a c"
proof (induction a b arbitrary: c rule: str_less.induct)
  case 1
  then show ?case by simp
next
  case (2 y ys)
  then show ?case by (cases c) auto
next
  case (3 x xs)
  then show ?case by simp
next
  case (4 x xs y ys)
  then show ?case by (cases c) auto
qed

lemma str_less_total: "a \<noteq> b \<Longrightarrow> \<not> str_less a b \<Longrightarrow> str_less b a"
  by (induction a b rule: str_less.induct) (auto simp: not_less le_less)

lemma key_less_asym:
  "key_less a b \<Longrightarrow> \<not> key_less b a"
  "keys_less as bs \<Longrightarrow> \<not> keys_less bs as"
  by (induction a b and as bs rule: key_less_keys_less.induct) (auto dest: str_less_asym)

lemma key_less_total:
  "a \<noteq> b \<Longrightarrow> \<not> key_less a b \<Longrightarrow> key_less b a"
  "as \<noteq> bs \<Longrightarrow> \<not> keys_less as bs \<Longrightarrow> keys_less bs as"
  by (induction a b and as bs rule: key_less_keys_less.induct) (auto simp: str_less_total)

lemma key_less_trans:
  "key_less a b \<Longrightarrow> key_less b c \<Longrightarrow> key_less a c"
  "keys_less as bs \<Longrightarrow> keys_less bs cs \<Longrightarrow> keys_less as cs"
proof (induction a b and as bs arbitrary: c and cs rule: key_less_keys_less.induct)
  case (1 a b)
  then show ?case by (cases c) auto
next
  case (5 a b)
  then show ?case by (cases c) (auto intro: str_less_trans)
next
  case (9 a b)
  then show ?case by (cases c) auto
next
  case (11 y ys)
  then show ?case by (cases cs) auto
next
  case (13 x xs y ys)
  show ?case
  proof (cases cs)
    case Nil
    with 13 show ?thesis by simp
  next
    case (Cons z zs)
    with 13 show ?thesis
      by (auto dest: key_less_asym)
  qed
qed (auto elim: key_less.elims)

text \<open>\<^verbatim>\<open>put\<close> and \<^verbatim>\<open>delete\<close> keep the store in order, for an order of the keys that is
  transitive and total, as the two orders above are.\<close>

lemma store_insert_ok:
  assumes trans: "\<And>a b c. lt a b \<Longrightarrow> lt b c \<Longrightarrow> lt a c"
    and total: "\<And>a b. a \<noteq> b \<Longrightarrow> \<not> lt a b \<Longrightarrow> lt b a"
  shows "store_ok lt key s \<Longrightarrow> key r \<noteq> None \<Longrightarrow> store_ok lt key (store_insert lt key r s)"
proof (induction s)
  case Nil
  then show ?case by (simp add: store_ok_def)
next
  case (Cons x xs)
  from Cons.prems(1) have ok: "store_ok lt key xs" and kx: "key x \<noteq> None"
    and later: "\<And>y. y \<in> set xs \<Longrightarrow> key_before lt key x y"
    by (simp_all add: store_ok_def)
  from Cons.prems(2) obtain kr where kr: "key r = Some kr" by auto
  from kx obtain k where k: "key x = Some k" by auto
  show ?case
  proof (cases "key x = key r")
    case True
    with later have "\<And>y. y \<in> set xs \<Longrightarrow> key_before lt key r y"
      by (simp add: key_before_def)
    with ok True Cons.prems(2) show ?thesis
      by (simp add: store_ok_def)
  next
    case False
    show ?thesis
    proof (cases "key_before lt key r x")
      case True
      have "key_before lt key r y" if "y \<in> set xs" for y
        using later [OF that] True trans by (auto simp: key_before_def split: option.splits)
      with True False Cons.prems show ?thesis
        by (simp add: store_ok_def)
    next
      case n: False
      from False n k kr total [of k kr] have b: "key_before lt key x r"
        by (auto simp: key_before_def)
      have "key_before lt key x y" if "y \<in> set (store_insert lt key r xs)" for y
        using that store_insert_subset [of lt key r xs] b later by auto
      moreover from Cons.IH [OF ok Cons.prems(2)]
      have "store_ok lt key (store_insert lt key r xs)" .
      ultimately show ?thesis
        using False n kx by (simp add: store_ok_def)
    qed
  qed
qed

lemma store_delete_ok: "store_ok lt key s \<Longrightarrow> store_ok lt key (store_delete key k s)"
  by (induction s) (auto simp: store_ok_def store_delete_def)

text \<open>A record whose key is above every key of the store is added at the end.\<close>

lemma store_insert_last:
  assumes asym: "\<And>a b. lt a b \<Longrightarrow> \<not> lt b a"
  shows "\<forall>x \<in> set s. key_before lt key x r \<Longrightarrow> store_insert lt key r s = s @ [r]"
proof (induction s)
  case Nil
  then show ?case by simp
next
  case (Cons x xs)
  from Cons.prems have "key_before lt key x r" by simp
  then obtain kx kr where k: "key x = Some kx" "key r = Some kr" "lt kx kr"
    by (auto simp: key_before_def split: option.splits)
  with asym [of kx kr] asym [of kx kx] have "key x \<noteq> key r" "\<not> key_before lt key r x"
    by (auto simp: key_before_def)
  with Cons show ?case by simp
qed

lemma put_each_snd:
  "snd (put_each fails items s) = list_all (\<lambda>r. keyPath_id r \<noteq> None) items"
  by (induction items arbitrary: s) (auto simp: store_put_def split_beta split: option.splits)

lemma put_each_stops:
  "list_all (\<lambda>r. keyPath_id r \<noteq> None) pre \<Longrightarrow> keyPath_id bad = None \<Longrightarrow>
     put_each fails (pre @ bad # rest) s = (fst (put_each fails pre s), False)"
  by (induction pre arbitrary: s) (auto simp: store_put_def split_beta split: option.splits)

lemma put_each_aborts:
  "list_all (\<lambda>r. keyPath_id r \<noteq> None) pre \<Longrightarrow> keyPath_id r \<noteq> None \<Longrightarrow> fails r \<Longrightarrow>
     fst (put_each fails (pre @ r # rest) s) = None"
  by (induction pre arbitrary: s) (auto simp: store_put_def split_beta split: option.splits)

lemma store_get_append:
  "store_get key k (xs @ ys) =
     (case store_get key k xs of Some x \<Rightarrow> Some x | None \<Rightarrow> store_get key k ys)"
  unfolding store_get_def by (induction xs) auto

lemma put_each_commits:
  "list_all (\<lambda>r. keyPath_id r \<noteq> None) items \<Longrightarrow> list_all (\<lambda>r. \<not> fails r) items \<Longrightarrow>
     \<exists>db. put_each fails items s = (Some db, True) \<and>
          set db \<subseteq> set s \<union> set items \<and>
          (\<forall>k. store_get keyPath_id k db =
                 (case store_get keyPath_id k (rev items) of
                    Some r \<Rightarrow> Some r
                  | None \<Rightarrow> store_get keyPath_id k s))"
proof (induction items arbitrary: s)
  case Nil
  then show ?case by (simp add: store_get_def)
next
  case (Cons i items)
  from Cons.prems obtain k where k: "keyPath_id i = Some k" by auto
  define s' where "s' = store_insert key_less keyPath_id i s"
  from k have p: "store_put key_less keyPath_id i s = Some s'"
    by (simp add: store_put_def s'_def)
  from Cons.prems have "list_all (\<lambda>r. keyPath_id r \<noteq> None) items" "list_all (\<lambda>r. \<not> fails r) items"
    by simp_all
  from Cons.IH [OF this, of s'] obtain db where db: "put_each fails items s' = (Some db, True)"
    "set db \<subseteq> set s' \<union> set items"
    "\<And>k. store_get keyPath_id k db =
            (case store_get keyPath_id k (rev items) of
               Some r \<Rightarrow> Some r
             | None \<Rightarrow> store_get keyPath_id k s')"
    by blast
  have one: "store_get keyPath_id k' [i] = (if keyPath_id i = Some k' then Some i else None)" for k'
    by (simp add: store_get_def)
  have "put_each fails (i # items) s = (Some db, True)"
    using p db(1) Cons.prems(2) by simp
  moreover have "set db \<subseteq> set s \<union> set (i # items)"
    using db(2) store_insert_subset [of key_less keyPath_id i s] unfolding s'_def by auto
  moreover have "store_get keyPath_id k' db =
                 (case store_get keyPath_id k' (rev (i # items)) of
                    Some r \<Rightarrow> Some r
                  | None \<Rightarrow> store_get keyPath_id k' s)" for k'
    unfolding db(3) store_put_get [OF p]
    by (simp add: store_get_append one split: option.splits)
  ultimately show ?case by blast
qed

text \<open>Putting, into an empty store, what \<^verbatim>\<open>getAll\<close> gave, in the order it gave it, gives
  the same store back.\<close>

lemma put_each_sorted:
  "store_ok key_less keyPath_id (s @ items) \<Longrightarrow> list_all (\<lambda>r. \<not> fails r) items \<Longrightarrow>
     put_each fails items s = (Some (s @ items), True)"
proof (induction items arbitrary: s)
  case Nil
  then show ?case by simp
next
  case (Cons i items)
  from Cons.prems(1) have k: "keyPath_id i \<noteq> None"
    and b: "\<forall>x \<in> set s. key_before key_less keyPath_id x i"
    by (simp_all add: store_ok_def sorted_wrt_append)
  from store_insert_last [of key_less s keyPath_id i, OF key_less_asym(1) b]
  have p: "store_put key_less keyPath_id i s = Some (s @ [i])"
    using k by (auto simp: store_put_def)
  from Cons.prems have "put_each fails items (s @ [i]) = (Some ((s @ [i]) @ items), True)"
    by (intro Cons.IH) simp_all
  with p Cons.prems(2) show ?case by simp
qed

section \<open>Properties of the flag store operations\<close>

lemma setItem_fields [simp]:
  "localStorage (setItem k v st) k' = (if k' = k then Some v else localStorage st k')"
  "materialsDB (setItem k v st) = materialsDB st"
  "indexedDB_ok (setItem k v st) = indexedDB_ok st"
  "db_fails (setItem k v st) = db_fails st"
  "alerts (setItem k v st) = alerts st"
  "console (setItem k v st) = console st"
  "reloads (setItem k v st) = reloads st"
  "isRestoring (setItem k v st) = isRestoring st"
  by (auto simp: setItem_def)

lemma restore_flag_localStorage:
  "localStorage (restore_flag d f k st) k' =
     (if k' = k \<and> truthy (get_prop d f) then Some (ToString (the (get_prop d f)))
      else localStorage st k')"
  by (auto simp: restore_flag_def setItem_def split: option.splits)

lemma restore_flag_fields [simp]:
  "materialsDB (restore_flag d f k st) = materialsDB st"
  "indexedDB_ok (restore_flag d f k st) = indexedDB_ok st"
  "db_fails (restore_flag d f k st) = db_fails st"
  "alerts (restore_flag d f k st) = alerts st"
  "console (restore_flag d f k st) = console st"
  "reloads (restore_flag d f k st) = reloads st"
  "isRestoring (restore_flag d f k st) = isRestoring st"
  by (auto simp: restore_flag_def setItem_def split: option.splits)

lemma restore_registrations_localStorage:
  "localStorage (restore_registrations js d st) k' =
     (if k' = ''prolens_registrations'' \<and> truthy (get_prop d ''registrations'')
      then Some (js (the (get_prop d ''registrations'')))
      else localStorage st k')"
  by (auto simp: restore_registrations_def setItem_def split: option.splits)

lemma restore_registrations_fields [simp]:
  "materialsDB (restore_registrations js d st) = materialsDB st"
  "indexedDB_ok (restore_registrations js d st) = indexedDB_ok st"
  "db_fails (restore_registrations js d st) = db_fails st"
  "alerts (restore_registrations js d st) = alerts st"
  "console (restore_registrations js d st) = console st"
  "reloads (restore_registrations js d st) = reloads st"
  "isRestoring (restore_registrations js d st) = isRestoring st"
  by (auto simp: restore_registrations_def setItem_def split: option.splits)

section \<open>Properties of the imports\<close>

lemma import_failed_fields [simp]:
  "reloads (import_failed l m st) = reloads st"
  "alerts (import_failed l m st) = alerts st @ [m]"
  "materialsDB (import_failed l m st) = materialsDB st"
  "localStorage (import_failed l m st) = localStorage st"
  "isRestoring (import_failed l m st) = False"
  by (simp_all add: import_failed_def)

lemma repopulate_fields [simp]:
  "localStorage (repopulate l b d data st) = localStorage st"
  "reloads (repopulate l b d data st) =
     (if indexedDB_ok st \<and> snd (put_each (db_fails st) (materials_of data) []) \<and>
         fst (put_each (db_fails st) (materials_of data) []) \<noteq> None
      then Suc (reloads st) else reloads st)"
  "materialsDB (repopulate l b d data st) =
     (if indexedDB_ok st
      then (case fst (put_each (db_fails st) (materials_of data) []) of
              Some stored \<Rightarrow> stored
            | None \<Rightarrow> materialsDB st)
      else materialsDB st)"
  "alerts (repopulate l b d data st) =
     (if indexedDB_ok st \<and> snd (put_each (db_fails st) (materials_of data) [])
      then (if fst (put_each (db_fails st) (materials_of data) []) \<noteq> None
            then alerts st @ [d] else alerts st)
      else alerts st @ [b])"
  "isRestoring (repopulate l b d data st) =
     (isRestoring st \<and> indexedDB_ok st \<and> snd (put_each (db_fails st) (materials_of data) []))"
  by (auto simp: repopulate_def store_clear_def split: prod.splits bool.splits option.splits)

lemma handleImport_reloads:
  "reloads (handleImport file c st) \<noteq> reloads st \<longleftrightarrow>
     (\<exists>data. file = Some (Parsed data) \<and> c \<and> data \<noteq> JNull \<and> indexedDB_ok st
        \<and> snd (put_each (db_fails st) (materials_of data) [])
        \<and> fst (put_each (db_fails st) (materials_of data) []) \<noteq> None)"
  by (auto simp: handleImport_def split: option.splits file_read.splits)

lemma handleImport_localStorage:
  assumes "file = Some (Parsed data)" "c" "data \<noteq> JNull"
  shows "localStorage (handleImport file c st) k =
     (if k = ''prolens_user_role'' then Some ''student''
      else if k = ''prolens_my_registration'' \<and> truthy (get_prop data ''myRegistration'')
        then Some (ToString (the (get_prop data ''myRegistration'')))
      else if k = ''prolens_completed_topics'' \<and> truthy (get_prop data ''completedTopics'')
        then Some (ToString (the (get_prop data ''completedTopics'')))
      else if k = ''prolens_messages'' \<and> truthy (get_prop data ''messages'')
        then Some (ToString (the (get_prop data ''messages'')))
      else if k = ''prolens_student_profile'' \<and> truthy (get_prop data ''profile'')
        then Some (ToString (the (get_prop data ''profile'')))
      else localStorage st k)"
  using assms by (simp add: handleImport_def restore_flag_localStorage)

lemma handleImportBackup_localStorage:
  assumes "file = Some (bytes, Parsed data)" "bytes > 100 * (1024 * 1024) \<longrightarrow> c" "data \<noteq> JNull"
  shows "localStorage (handleImportBackup js file c st) k =
     (if k = ''prolens_registrations'' \<and> truthy (get_prop data ''registrations'')
        then Some (js (the (get_prop data ''registrations'')))
      else if k = ''prolens_completed_topics'' \<and> truthy (get_prop data ''completedTopics'')
        then Some (ToString (the (get_prop data ''completedTopics'')))
      else if k = ''prolens_messages'' \<and> truthy (get_prop data ''messages'')
        then Some (ToString (the (get_prop data ''messages'')))
      else if k = ''prolens_announcement'' \<and> truthy (get_prop data ''announcement'')
        then Some (ToString (the (get_prop data ''announcement'')))
      else localStorage st k)"
  using assms
  by (cases "bytes > 100 * (1024 * 1024)")
    (simp_all add: handleImportBackup_def restore_flag_localStorage
      restore_registrations_localStorage)

lemma handleImport_parsed:
  assumes "data \<noteq> JNull" "indexedDB_ok st"
  shows "reloads (handleImport (Some (Parsed data)) True st) =
           (if snd (put_each (db_fails st) (materials_of data) []) \<and>
               fst (put_each (db_fails st) (materials_of data) []) \<noteq> None
            then Suc (reloads st) else reloads st)"
    and "alerts (handleImport (Some (Parsed data)) True st) =
           (if snd (put_each (db_fails st) (materials_of data) [])
            then (if fst (put_each (db_fails st) (materials_of data) []) \<noteq> None
                  then alerts st @ [SyncCompleted] else alerts st)
            else alerts st @ [SyncFileInvalid])"
    and "materialsDB (handleImport (Some (Parsed data)) True st) =
           (case fst (put_each (db_fails st) (materials_of data) []) of
              Some stored \<Rightarrow> stored
            | None \<Rightarrow> materialsDB st)"
    and "isRestoring (handleImport (Some (Parsed data)) True st) =
           snd (put_each (db_fails st) (materials_of data) [])"
  using assms by (simp_all add: handleImport_def split: option.splits)

lemma handleImportBackup_parsed:
  assumes "data \<noteq> JNull" "indexedDB_ok st"
  shows "reloads (handleImportBackup js (Some (bytes, Parsed data)) True st) =
           (if snd (put_each (db_fails st) (materials_of data) []) \<and>
               fst (put_each (db_fails st) (materials_of data) []) \<noteq> None
            then Suc (reloads st) else reloads st)"
    and "alerts (handleImportBackup js (Some (bytes, Parsed data)) True st) =
           (if snd (put_each (db_fails st) (materials_of data) [])
            then (if fst (put_each (db_fails st) (materials_of data) []) \<noteq> None
                  then alerts st @ [RestoreCompleted] else alerts st)
            else alerts st @ [BackupFileInvalid])"
    and "materialsDB (handleImportBackup js (Some (bytes, Parsed data)) True st) =
           (case fst (put_each (db_fails st) (materials_of data) []) of
              Some stored \<Rightarrow> stored
            | None \<Rightarrow> materialsDB st)"
    and "isRestoring (handleImportBackup js (Some (bytes, Parsed data)) True st) =
           snd (put_each (db_fails st) (materials_of data) [])"
  using assms by (simp_all add: handleImportBackup_def split: option.splits)

lemma sample_keys:
  "keyPath_id sample_material = Some (KStr ''1700000000000.42'')"
  "keyPath_id other_material = Some (KStr ''1700000000001.07'')"
  "keyPath_id large_material = Some (KStr ''1700000000002.55'')"
  "keyPath_id stale_material = Some (KStr ''1700000000000.42'')"
  by (simp_all add: keyPath_id_def sample_material_def other_material_def large_material_def
      stale_material_def)

lemma admin_session_fields:
  "indexedDB_ok admin_session"
  "reloads admin_session = 0"
  "alerts admin_session = []"
  "materialsDB admin_session = [sample_material]"
  "db_fails admin_session = (\<lambda>r. False)"
  "localStorage admin_session ''prolens_user_role'' = Some ''admin''"
  "localStorage admin_session ''prolens_messages'' = Some ''[]''"
  "localStorage admin_session ''prolens_announcement'' = None"
  by (simp_all add: admin_session_def)

text \<open>
  Claim C1, at the input where the code departs from it. A student sync import of a
  bundle that holds nothing but an empty \<^verbatim>\<open>materials\<close> list, in a session whose stored
  role is \<^verbatim>\<open>admin\<close>, runs to completion and leaves the flag \<^verbatim>\<open>prolens_user_role\<close> at
  \<^verbatim>\<open>student\<close>, although the bundle has no field for it.
\<close>

theorem materials_only_import_overwrites_role:
  "only_materials = JObj [(''materials'', JArr [])] \<and>
   reloads (handleImport (Some (Parsed only_materials)) True admin_session)
     = Suc (reloads admin_session) \<and>
   getItem ''prolens_user_role'' admin_session = Some ''admin'' \<and>
   getItem ''prolens_user_role'' (handleImport (Some (Parsed only_materials)) True admin_session)
     = Some ''student''"
proof -
  have n: "only_materials \<noteq> JNull"
    by (simp add: only_materials_def)
  have m: "materials_of only_materials = []"
    by (simp add: only_materials_def materials_of_def)
  have r: "reloads (handleImport (Some (Parsed only_materials)) True admin_session)
             = Suc (reloads admin_session)"
    unfolding handleImport_parsed [OF n admin_session_fields(1)] m by simp
  have a: "getItem ''prolens_user_role'' admin_session = Some ''admin''"
    by (simp add: getItem_def admin_session_fields)
  have b: "getItem ''prolens_user_role''
      (handleImport (Some (Parsed only_materials)) True admin_session) = Some ''student''"
    unfolding getItem_def handleImport_localStorage [OF refl TrueI n] by simp
  show ?thesis
    using r a b by (intro conjI) (simp_all add: only_materials_def)
qed

section \<open>Properties of the export and the round trip\<close>

lemma handleExport_fields:
  assumes "indexedDB_ok st"
  shows "downloads (handleExport stamp day st) =
           downloads st @ [(''prolens_sync_'' @ take 10 day @ ''.json'', syncData_of stamp st)]"
    and "localStorage (handleExport stamp day st) = localStorage st"
    and "materialsDB (handleExport stamp day st) = materialsDB st"
    and "indexedDB_ok (handleExport stamp day st)"
    and "reloads (handleExport stamp day st) = reloads st"
    and "db_fails (handleExport stamp day st) = db_fails st"
  using assms by (simp_all add: handleExport_def)

lemma syncData_of_props:
  "syncData_of stamp st \<noteq> JNull"
  "materials_of (syncData_of stamp st) = materialsDB st"
  by (simp_all add: syncData_of_def materials_of_def store_getAll_def)

text \<open>The document store comes back from an export followed by the import of the exported
  bundle as it was, when none of its records is one the database fails to store.\<close>

lemma store_round_trip:
  assumes "indexedDB_ok st" "store_ok key_less keyPath_id (materialsDB st)"
    and "list_all (\<lambda>r. \<not> db_fails st r) (materialsDB st)"
  shows "store_getAll (materialsDB
           (handleImport (Some (Parsed (syncData_of stamp st))) True (handleExport stamp day st)))
         = store_getAll (materialsDB st)"
proof -
  note e = handleExport_fields [OF assms(1), of stamp day]
  have p: "put_each (db_fails st) (materialsDB st) [] = (Some (materialsDB st), True)"
    using put_each_sorted [of "[]" "materialsDB st" "db_fails st"] assms(2,3) by simp
  show ?thesis
    unfolding handleImport_parsed [OF syncData_of_props(1) e(4)] syncData_of_props e p
    by simp
qed

text \<open>
  Claim C2, at the input where the code departs from it. The sync dialog is open to an
  admin as well. In a session whose stored role is \<^verbatim>\<open>admin\<close>, a student sync export
  followed by the import of the exported bundle runs to completion, and the read of
  \<^verbatim>\<open>prolens_user_role\<close> is \<^verbatim>\<open>student\<close> afterwards.
\<close>

theorem round_trip_overwrites_admin_role:
  "getItem ''prolens_user_role'' admin_session = Some ''admin'' \<and>
   reloads (handleImport
       (Some (Parsed (snd (last (downloads (handleExport sample_stamp sample_stamp admin_session))))))
       True (handleExport sample_stamp sample_stamp admin_session))
     = Suc (reloads admin_session) \<and>
   getItem ''prolens_user_role''
     (handleImport
       (Some (Parsed (snd (last (downloads (handleExport sample_stamp sample_stamp admin_session))))))
       True (handleExport sample_stamp sample_stamp admin_session))
     = Some ''student''"
proof -
  note e = handleExport_fields [of admin_session sample_stamp sample_stamp,
      OF admin_session_fields(1)]
  have l: "snd (last (downloads (handleExport sample_stamp sample_stamp admin_session)))
             = syncData_of sample_stamp admin_session"
    by (simp add: e)
  have a: "getItem ''prolens_user_role'' admin_session = Some ''admin''"
    by (simp add: getItem_def admin_session_fields)
  have p: "put_each (\<lambda>r. False) [sample_material] [] = (Some [sample_material], True)"
    by (simp add: store_put_def sample_keys)
  have r: "reloads (handleImport (Some (Parsed (syncData_of sample_stamp admin_session))) True
             (handleExport sample_stamp sample_stamp admin_session)) = Suc (reloads admin_session)"
    unfolding handleImport_parsed [OF syncData_of_props(1) e(4)] syncData_of_props e
      admin_session_fields p
    by simp
  have s: "getItem ''prolens_user_role''
     (handleImport (Some (Parsed (syncData_of sample_stamp admin_session))) True
       (handleExport sample_stamp sample_stamp admin_session)) = Some ''student''"
    unfolding getItem_def handleImport_localStorage [OF refl TrueI syncData_of_props(1)]
    by simp
  show ?thesis
    unfolding l using a r s by (intro conjI)
qed

section \<open>Properties of a failed import\<close>

lemma interrupted_store:
  assumes "list_all (\<lambda>r. keyPath_id r \<noteq> None \<and> \<not> fails r) written" "keyPath_id bad = None"
  shows "\<exists>stored. put_each fails (written @ bad # rest) [] = (Some stored, False) \<and>
           set stored \<subseteq> set written \<and>
           (\<forall>k. store_get keyPath_id k stored = store_get keyPath_id k (rev written))"
proof -
  from assms(1) have w: "list_all (\<lambda>r. keyPath_id r \<noteq> None) written"
    "list_all (\<lambda>r. \<not> fails r) written"
    by (simp_all add: list_all_iff)
  from put_each_commits [OF w, of "[]"] obtain stored where
    s: "put_each fails written [] = (Some stored, True)" "set stored \<subseteq> set written"
      "\<And>k. store_get keyPath_id k stored =
            (case store_get keyPath_id k (rev written) of
               Some r \<Rightarrow> Some r
             | None \<Rightarrow> store_get keyPath_id k [])"
    by auto
  have "store_get keyPath_id k stored = store_get keyPath_id k (rev written)" for k
    unfolding s(3) by (simp add: store_get_def split: option.splits)
  with s(1,2) put_each_stops [OF w(1) assms(2), of fails rest "[]"] show ?thesis
    by simp
qed

lemma handleImport_flags:
  assumes "data \<noteq> JNull"
  shows "getItem ''prolens_user_role'' (handleImport (Some (Parsed data)) True st) = Some ''student''"
    and "flags_restored sync_fields (\<lambda>field. ToString) data
           (handleImport (Some (Parsed data)) True st)"
  unfolding flags_restored_def getItem_def handleImport_localStorage [OF refl TrueI assms]
  by (simp_all add: sync_fields_def)

lemma handleImportBackup_flags:
  assumes "data \<noteq> JNull"
  shows "flags_restored backup_fields (\<lambda>field. if field = ''registrations'' then js else ToString)
           data (handleImportBackup js (Some (bytes, Parsed data)) True st)"
proof -
  have c: "100 * (1024 * 1024) < bytes \<longrightarrow> True"
    by simp
  show ?thesis
    unfolding flags_restored_def getItem_def handleImportBackup_localStorage [OF refl c assms]
    by (simp add: backup_fields_def)
qed

text \<open>
  Claim C8, as amended. An import of a file that is not JSON shows one failure message,
  fires no reload, and leaves both stores as they were. An import in which a \<^verbatim>\<open>put\<close>
  raises (the entry \<open>bad\<close> has no usable \<^verbatim>\<open>id\<close>) after the entries \<open>written\<close> have been
  put, none of which the database fails to store, shows one failure message and fires no
  reload; nothing is rolled back: the flags written from the bundle read as written, and
  the store holds the entries written before the failure, the last one under each key,
  and nothing of what it held before the import. An import in which the database fails
  the request to store an entry, after the call \<^verbatim>\<open>store.put(item)\<close> has returned, fires
  no reload either and leaves the flags as written; there the transaction is aborted, and
  the document store is back at what it held before the import. All of this holds for
  the student sync import and for the admin backup import.
\<close>

theorem failed_import_aborts_without_rollback:
  "(let st' = handleImport (Some Malformed) True st in
      reloads st' = reloads st \<and> alerts st' = alerts st @ [SyncFileInvalid] \<and>
      materialsDB st' = materialsDB st \<and> localStorage st' = localStorage st) \<and>
   (let st' = handleImportBackup js (Some (bytes, Malformed)) True st in
      reloads st' = reloads st \<and> alerts st' = alerts st @ [BackupFileInvalid] \<and>
      materialsDB st' = materialsDB st \<and> localStorage st' = localStorage st) \<and>
   (data \<noteq> JNull \<and> indexedDB_ok st \<and> materials_of data = written @ bad # rest \<and>
    list_all (\<lambda>r. keyPath_id r \<noteq> None \<and> \<not> db_fails st r) written \<and> keyPath_id bad = None \<longrightarrow>
      (let st' = handleImport (Some (Parsed data)) True st in
         reloads st' = reloads st \<and> alerts st' = alerts st @ [SyncFileInvalid] \<and>
         set (store_getAll (materialsDB st')) \<subseteq> set written \<and>
         (\<forall>k. store_get keyPath_id k (materialsDB st') = store_get keyPath_id k (rev written)) \<and>
         getItem ''prolens_user_role'' st' = Some ''student'' \<and>
         flags_restored sync_fields (\<lambda>field. ToString) data st') \<and>
      (let st' = handleImportBackup js (Some (bytes, Parsed data)) True st in
         reloads st' = reloads st \<and> alerts st' = alerts st @ [BackupFileInvalid] \<and>
         set (store_getAll (materialsDB st')) \<subseteq> set written \<and>
         (\<forall>k. store_get keyPath_id k (materialsDB st') = store_get keyPath_id k (rev written)) \<and>
         flags_restored backup_fields (\<lambda>field. if field = ''registrations'' then js else ToString)
           data st')) \<and>
   (data \<noteq> JNull \<and> indexedDB_ok st \<and> materials_of data = written @ failed # rest \<and>
    list_all (\<lambda>r. keyPath_id r \<noteq> None) written \<and> keyPath_id failed \<noteq> None \<and>
    db_fails st failed \<longrightarrow>
      (let st' = handleImport (Some (Parsed data)) True st in
         reloads st' = reloads st \<and>
         store_getAll (materialsDB st') = store_getAll (materialsDB st) \<and>
         getItem ''prolens_user_role'' st' = Some ''student'' \<and>
         flags_restored sync_fields (\<lambda>field. ToString) data st') \<and>
      (let st' = handleImportBackup js (Some (bytes, Parsed data)) True st in
         reloads st' = reloads st \<and>
         store_getAll (materialsDB st') = store_getAll (materialsDB st) \<and>
         flags_restored backup_fields (\<lambda>field. if field = ''registrations'' then js else ToString)
           data st'))"
proof (intro conjI impI)
  show "let st' = handleImport (Some Malformed) True st in
      reloads st' = reloads st \<and> alerts st' = alerts st @ [SyncFileInvalid] \<and>
      materialsDB st' = materialsDB st \<and> localStorage st' = localStorage st"
    by (simp add: handleImport_def)
  show "let st' = handleImportBackup js (Some (bytes, Malformed)) True st in
      reloads st' = reloads st \<and> alerts st' = alerts st @ [BackupFileInvalid] \<and>
      materialsDB st' = materialsDB st \<and> localStorage st' = localStorage st"
    by (simp add: handleImportBackup_def)
next
  assume a: "data \<noteq> JNull \<and> indexedDB_ok st \<and> materials_of data = written @ bad # rest \<and>
    list_all (\<lambda>r. keyPath_id r \<noteq> None \<and> \<not> db_fails st r) written \<and> keyPath_id bad = None"
  then have d: "data \<noteq> JNull" and i: "indexedDB_ok st"
    and m: "materials_of data = written @ bad # rest"
    and w: "list_all (\<lambda>r. keyPath_id r \<noteq> None \<and> \<not> db_fails st r) written"
    and b: "keyPath_id bad = None"
    by simp_all
  from interrupted_store [OF w b, of rest] obtain stored where
    s: "put_each (db_fails st) (written @ bad # rest) [] = (Some stored, False)"
      "set stored \<subseteq> set written"
      "\<forall>k. store_get keyPath_id k stored = store_get keyPath_id k (rev written)"
    by blast
  show "let st' = handleImport (Some (Parsed data)) True st in
         reloads st' = reloads st \<and> alerts st' = alerts st @ [SyncFileInvalid] \<and>
         set (store_getAll (materialsDB st')) \<subseteq> set written \<and>
         (\<forall>k. store_get keyPath_id k (materialsDB st') = store_get keyPath_id k (rev written)) \<and>
         getItem ''prolens_user_role'' st' = Some ''student'' \<and>
         flags_restored sync_fields (\<lambda>field. ToString) data st'"
    unfolding Let_def handleImport_parsed [OF d i] m s store_getAll_def
    using s(2,3) handleImport_flags [OF d, of st] by simp
  show "let st' = handleImportBackup js (Some (bytes, Parsed data)) True st in
         reloads st' = reloads st \<and> alerts st' = alerts st @ [BackupFileInvalid] \<and>
         set (store_getAll (materialsDB st')) \<subseteq> set written \<and>
         (\<forall>k. store_get keyPath_id k (materialsDB st') = store_get keyPath_id k (rev written)) \<and>
         flags_restored backup_fields (\<lambda>field. if field = ''registrations'' then js else ToString)
           data st'"
    unfolding Let_def handleImportBackup_parsed [OF d i] m s store_getAll_def
    using s(2,3) handleImportBackup_flags [OF d, of js bytes st] by simp
next
  assume a: "data \<noteq> JNull \<and> indexedDB_ok st \<and> materials_of data = written @ failed # rest \<and>
    list_all (\<lambda>r. keyPath_id r \<noteq> None) written \<and> keyPath_id failed \<noteq> None \<and>
    db_fails st failed"
  then have d: "data \<noteq> JNull" and i: "indexedDB_ok st"
    and m: "materials_of data = written @ failed # rest"
    and w: "list_all (\<lambda>r. keyPath_id r \<noteq> None) written"
    and f: "keyPath_id failed \<noteq> None" "db_fails st failed"
    by simp_all
  note s = put_each_aborts [of written failed "db_fails st" rest "[]", OF w f]
  show "let st' = handleImport (Some (Parsed data)) True st in
         reloads st' = reloads st \<and>
         store_getAll (materialsDB st') = store_getAll (materialsDB st) \<and>
         getItem ''prolens_user_role'' st' = Some ''student'' \<and>
         flags_restored sync_fields (\<lambda>field. ToString) data st'"
    unfolding Let_def handleImport_parsed [OF d i] m s store_getAll_def
    using handleImport_flags [OF d, of st] by simp
  show "let st' = handleImportBackup js (Some (bytes, Parsed data)) True st in
         reloads st' = reloads st \<and>
         store_getAll (materialsDB st') = store_getAll (materialsDB st) \<and>
         flags_restored backup_fields (\<lambda>field. if field = ''registrations'' then js else ToString)
           data st'"
    unfolding Let_def handleImportBackup_parsed [OF d i] m s store_getAll_def
    using handleImportBackup_flags [OF d, of js bytes st] by simp
qed

lemma broken_bundle_props:
  "broken_bundle \<noteq> JNull"
  "materials_of broken_bundle
     = [other_material] @ JObj [(''name'', JStr ''no id'')] # [sample_material]"
  "keyPath_id (JObj [(''name'', JStr ''no id'')]) = None"
  by (simp_all add: broken_bundle_def materials_of_def keyPath_id_def)

lemma large_bundle_props:
  "large_bundle \<noteq> JNull"
  "materials_of large_bundle = [other_material] @ large_material # []"
  "get_prop large_bundle ''messages'' = Some (JStr ''[1]'')"
  by (simp_all add: large_bundle_def materials_of_def)

lemma full_session_fields:
  "indexedDB_ok full_session"
  "reloads full_session = 0"
  "alerts full_session = []"
  "isRestoring full_session = False"
  "materialsDB full_session = [sample_material]"
  "db_fails full_session large_material"
  "\<not> db_fails full_session other_material"
  by (simp_all add: full_session_def admin_session_def other_material_def large_material_def)

theorem failed_import_aborts_without_rollback_witness:
  "reloads (handleImport (Some (Parsed broken_bundle)) True admin_session)
     = reloads admin_session \<and>
   alerts (handleImport (Some (Parsed broken_bundle)) True admin_session) = [SyncFileInvalid] \<and>
   store_get keyPath_id (KStr ''1700000000001.07'')
       (materialsDB (handleImport (Some (Parsed broken_bundle)) True admin_session))
     = Some other_material \<and>
   store_get keyPath_id (KStr ''1700000000000.42'')
       (materialsDB (handleImport (Some (Parsed broken_bundle)) True admin_session))
     = None \<and>
   alerts (handleImportBackup ToString (Some (2048, Parsed broken_bundle)) True admin_session)
     = [BackupFileInvalid] \<and>
   reloads (handleImport (Some (Parsed large_bundle)) True full_session)
     = reloads full_session \<and>
   store_getAll (materialsDB (handleImport (Some (Parsed large_bundle)) True full_session))
     = [sample_material] \<and>
   getItem ''prolens_user_role'' (handleImport (Some (Parsed large_bundle)) True full_session)
     = Some ''student''"
proof -
  have h: "broken_bundle \<noteq> JNull \<and> indexedDB_ok admin_session \<and>
      materials_of broken_bundle
        = [other_material] @ JObj [(''name'', JStr ''no id'')] # [sample_material] \<and>
      list_all (\<lambda>r. keyPath_id r \<noteq> None \<and> \<not> db_fails admin_session r) [other_material] \<and>
      keyPath_id (JObj [(''name'', JStr ''no id'')]) = None"
    by (simp add: broken_bundle_props admin_session_fields sample_keys)
  have g: "large_bundle \<noteq> JNull \<and> indexedDB_ok full_session \<and>
      materials_of large_bundle = [other_material] @ large_material # [] \<and>
      list_all (\<lambda>r. keyPath_id r \<noteq> None) [other_material] \<and>
      keyPath_id large_material \<noteq> None \<and> db_fails full_session large_material"
    by (simp add: large_bundle_props full_session_fields sample_keys)
  note t = failed_import_aborts_without_rollback
    [where data = broken_bundle and st = admin_session and written = "[other_material]"
       and bad = "JObj [(''name'', JStr ''no id'')]" and rest = "[sample_material]"
       and js = ToString and bytes = 2048,
     unfolded Let_def, THEN conjunct2, THEN conjunct2, THEN conjunct1, rule_format, OF h]
  note u = failed_import_aborts_without_rollback
    [where data = large_bundle and st = full_session and written = "[other_material]"
       and failed = large_material and rest = "[]",
     unfolded Let_def, THEN conjunct2, THEN conjunct2, THEN conjunct2, rule_format, OF g]
  note t1 = t [THEN conjunct1]
  note t2 = t [THEN conjunct2]
  have a: "reloads (handleImport (Some (Parsed broken_bundle)) True admin_session)
     = reloads admin_session"
    by (rule t1 [THEN conjunct1])
  have b: "alerts (handleImport (Some (Parsed broken_bundle)) True admin_session)
     = [SyncFileInvalid]"
    using t1 [THEN conjunct2, THEN conjunct1] by (simp add: admin_session_fields)
  note k = t1 [THEN conjunct2, THEN conjunct2, THEN conjunct2, THEN conjunct1, rule_format]
  have c: "store_get keyPath_id (KStr ''1700000000001.07'')
       (materialsDB (handleImport (Some (Parsed broken_bundle)) True admin_session))
     = Some other_material"
    unfolding k by (simp add: store_get_def sample_keys)
  have d: "store_get keyPath_id (KStr ''1700000000000.42'')
       (materialsDB (handleImport (Some (Parsed broken_bundle)) True admin_session))
     = None"
    unfolding k by (simp add: store_get_def sample_keys)
  have e: "alerts (handleImportBackup ToString (Some (2048, Parsed broken_bundle)) True
      admin_session) = [BackupFileInvalid]"
    using t2 [THEN conjunct2, THEN conjunct1] by (simp add: admin_session_fields)
  note u1 = u [THEN conjunct1]
  have f: "reloads (handleImport (Some (Parsed large_bundle)) True full_session)
     = reloads full_session"
    by (rule u1 [THEN conjunct1])
  have i: "store_getAll (materialsDB (handleImport (Some (Parsed large_bundle)) True full_session))
     = [sample_material]"
    using u1 [THEN conjunct2, THEN conjunct1] by (simp add: store_getAll_def full_session_fields)
  have j: "getItem ''prolens_user_role''
      (handleImport (Some (Parsed large_bundle)) True full_session) = Some ''student''"
    by (rule u1 [THEN conjunct2, THEN conjunct2, THEN conjunct1])
  show ?thesis
    by (intro conjI a b c d e f i j)
qed

text \<open>
  Claim C8 as stated fails. The bundle holds two materials, and the database fails the
  request to store the second (it has no room for it). The import fires no reload and
  shows no message at all; the dialog stays in its restoring state; the store is rolled
  back: it holds what it held before the import, and the first material, which was put
  before the failure, is not in it.
\<close>

theorem failed_put_request_is_rolled_back_silently:
  "materials_of large_bundle = [other_material, large_material] \<and>
   db_fails full_session large_material \<and>
   reloads (handleImport (Some (Parsed large_bundle)) True full_session)
     = reloads full_session \<and>
   alerts (handleImport (Some (Parsed large_bundle)) True full_session) = [] \<and>
   isRestoring (handleImport (Some (Parsed large_bundle)) True full_session) \<and>
   store_getAll (materialsDB full_session) = [sample_material] \<and>
   store_getAll (materialsDB (handleImport (Some (Parsed large_bundle)) True full_session))
     = [sample_material] \<and>
   store_get keyPath_id (KStr ''1700000000001.07'')
       (materialsDB (handleImport (Some (Parsed large_bundle)) True full_session))
     = None"
proof -
  have p: "put_each (db_fails full_session) [other_material, large_material] [] = (None, True)"
    by (simp add: store_put_def sample_keys full_session_fields)
  note i = handleImport_parsed [OF large_bundle_props(1) full_session_fields(1)]
  have m: "materials_of large_bundle = [other_material, large_material]"
    by (simp add: large_bundle_props)
  show ?thesis
    unfolding i m p
    by (simp add: full_session_fields store_getAll_def store_get_def sample_keys)
qed

text \<open>
  Claim C10. A student sync import that runs to completion (the page reload fires) leaves
  the flag \<^verbatim>\<open>prolens_user_role\<close> at \<^verbatim>\<open>student\<close>, whatever the bundle holds and whatever the
  role was before; every other flag key whose field is not in the bundle (among them every
  key the import has no field for) reads as it did before.
\<close>

theorem student_import_writes_role:
  assumes "reloads (handleImport file c st) \<noteq> reloads st"
  shows "getItem ''prolens_user_role'' (handleImport file c st) = Some ''student'' \<and>
         (\<forall>data key. file = Some (Parsed data) \<longrightarrow> key \<noteq> ''prolens_user_role'' \<longrightarrow>
            (\<forall>field. (field, key) \<in> set sync_fields \<longrightarrow> get_prop data field = None) \<longrightarrow>
            getItem key (handleImport file c st) = getItem key st)"
proof -
  from assms obtain data where d: "file = Some (Parsed data)" "c" "data \<noteq> JNull"
    unfolding handleImport_reloads by blast
  have role: "getItem ''prolens_user_role'' (handleImport file c st) = Some ''student''"
    unfolding getItem_def handleImport_localStorage [OF d] by simp
  have frame: "getItem key (handleImport file c st) = getItem key st"
    if "key \<noteq> ''prolens_user_role''"
      and "\<forall>field. (field, key) \<in> set sync_fields \<longrightarrow> get_prop data field = None" for key
  proof -
    from that(2) have h:
      "key = ''prolens_student_profile'' \<longrightarrow> \<not> truthy (get_prop data ''profile'')"
      "key = ''prolens_messages'' \<longrightarrow> \<not> truthy (get_prop data ''messages'')"
      "key = ''prolens_completed_topics'' \<longrightarrow> \<not> truthy (get_prop data ''completedTopics'')"
      "key = ''prolens_my_registration'' \<longrightarrow> \<not> truthy (get_prop data ''myRegistration'')"
      by (simp_all add: sync_fields_def)
    show ?thesis
      unfolding getItem_def handleImport_localStorage [OF d]
      using that(1) h by presburger
  qed
  from role frame d(1) show ?thesis by auto
qed

theorem student_import_writes_role_witness:
  "reloads (handleImport (Some (Parsed only_materials)) True admin_session)
     \<noteq> reloads admin_session \<and>
   getItem ''prolens_user_role'' admin_session = Some ''admin'' \<and>
   getItem ''prolens_user_role'' (handleImport (Some (Parsed only_materials)) True admin_session)
     = Some ''student'' \<and>
   getItem ''prolens_messages'' (handleImport (Some (Parsed only_materials)) True admin_session)
     = getItem ''prolens_messages'' admin_session"
proof -
  have r: "reloads (handleImport (Some (Parsed only_materials)) True admin_session)
             \<noteq> reloads admin_session"
    unfolding handleImport_reloads
    by (simp add: only_materials_def admin_session_def materials_of_def)
  have a: "getItem ''prolens_user_role'' admin_session = Some ''admin''"
    by (simp add: getItem_def admin_session_def)
  have n: "\<forall>field. (field, ''prolens_messages'') \<in> set sync_fields \<longrightarrow>
             get_prop only_materials field = None"
    by (simp add: sync_fields_def only_materials_def)
  have ne: "''prolens_messages'' \<noteq> ''prolens_user_role''"
    by simp
  note t = student_import_writes_role [OF r]
  have s: "getItem ''prolens_user_role''
      (handleImport (Some (Parsed only_materials)) True admin_session) = Some ''student''"
    by (rule conjunct1 [OF t])
  have m: "getItem ''prolens_messages''
      (handleImport (Some (Parsed only_materials)) True admin_session)
        = getItem ''prolens_messages'' admin_session"
    by (rule conjunct2 [OF t, rule_format, OF refl ne]) (rule n [rule_format])
  show ?thesis
    by (intro conjI r a s m)
qed

section \<open>Properties of the registrations\<close>

lemma handleRegistration_stored:
  "stored_registrations (handleRegistration d s t st) =
     (if \<exists>r \<in> set (stored_registrations st). phone r = form_phone d
      then stored_registrations st
      else stored_registrations st @
             [\<lparr>reg_id = s, reg_date = t, fullName = form_fullName d, email = form_email d,
               phone = form_phone d, level = form_level d, status = Pending\<rparr>])"
  by (cases "prolens_registrations st")
    (simp_all add: handleRegistration_def stored_registrations_def Let_def)

lemma handleRegistration_skips:
  "\<exists>r \<in> set (stored_registrations st). phone r = form_phone d \<Longrightarrow>
     prolens_registrations (handleRegistration d s t st) = prolens_registrations st"
  by (cases "prolens_registrations st")
    (auto simp: handleRegistration_def stored_registrations_def Let_def)

lemma addManualRegistration_adds:
  assumes "manual_name f \<noteq> []" "manual_phone f \<noteq> []"
  shows "admin_registrations (addManualRegistration s t (setManualReg f st)) =
           admin_registrations st @
             [\<lparr>reg_id = s, reg_date = t, fullName = manual_name f, email = manual_email f,
               phone = manual_phone f, level = ''manual'', status = Pending\<rparr>]"
    and "prolens_registrations (addManualRegistration s t (setManualReg f st)) =
           Some (admin_registrations (addManualRegistration s t (setManualReg f st)))"
  using assms by (simp_all add: addManualRegistration_def setManualReg_def Let_def)

text \<open>
  Claim C4. Registering oneself twice with the same phone number adds at most one entry:
  the second submission leaves the stored list as the first left it, which holds exactly
  one entry with that phone when there was none before (and is of length one when the list
  was empty or absent). Entering two students by hand with the same phone number, each
  with a name and a phone as the form demands, adds two entries: the manual path makes no
  check.
\<close>

theorem registration_dedup_is_path_specific:
  "(form_phone d2 = form_phone d1 \<longrightarrow>
      (let st1 = handleRegistration d1 s1 t1 st;
           st2 = handleRegistration d2 s2 t2 st1
       in prolens_registrations st2 = prolens_registrations st1 \<and>
          (\<not> (\<exists>r \<in> set (stored_registrations st). phone r = form_phone d1) \<longrightarrow>
             length (filter (\<lambda>r. phone r = form_phone d1) (stored_registrations st2)) = 1) \<and>
          (stored_registrations st = [] \<longrightarrow> length (stored_registrations st2) = 1))) \<and>
   (manual_phone f2 = manual_phone f1 \<and> manual_phone f1 \<noteq> [] \<and>
    manual_name f1 \<noteq> [] \<and> manual_name f2 \<noteq> [] \<longrightarrow>
      (let a1 = addManualRegistration s1 t1 (setManualReg f1 ad);
           a2 = addManualRegistration s2 t2 (setManualReg f2 a1)
       in prolens_registrations a2 = Some (admin_registrations a2) \<and>
          length (admin_registrations a2) = length (admin_registrations ad) + 2 \<and>
          length (filter (\<lambda>r. phone r = manual_phone f1) (admin_registrations a2))
            = length (filter (\<lambda>r. phone r = manual_phone f1) (admin_registrations ad)) + 2 \<and>
          (admin_registrations ad = [] \<longrightarrow> length (admin_registrations a2) = 2)))"
proof (intro conjI impI)
  assume p: "form_phone d2 = form_phone d1"
  define st1 where "st1 = handleRegistration d1 s1 t1 st"
  have ex: "\<exists>r \<in> set (stored_registrations st1). phone r = form_phone d2"
    unfolding st1_def handleRegistration_stored using p by auto
  have same: "prolens_registrations (handleRegistration d2 s2 t2 st1) = prolens_registrations st1"
    by (rule handleRegistration_skips [OF ex])
  then have l: "stored_registrations (handleRegistration d2 s2 t2 st1) = stored_registrations st1"
    by (simp add: stored_registrations_def)
  have one: "length (filter (\<lambda>r. phone r = form_phone d1) (stored_registrations st1)) = 1"
    if "\<not> (\<exists>r \<in> set (stored_registrations st). phone r = form_phone d1)"
  proof -
    from that have "filter (\<lambda>r. phone r = form_phone d1) (stored_registrations st) = []"
      by (simp add: filter_empty_conv)
    with that show ?thesis
      unfolding st1_def handleRegistration_stored by simp
  qed
  have first: "length (stored_registrations st1) = 1" if "stored_registrations st = []"
    unfolding st1_def handleRegistration_stored using that by simp
  show "let st1 = handleRegistration d1 s1 t1 st;
           st2 = handleRegistration d2 s2 t2 st1
       in prolens_registrations st2 = prolens_registrations st1 \<and>
          (\<not> (\<exists>r \<in> set (stored_registrations st). phone r = form_phone d1) \<longrightarrow>
             length (filter (\<lambda>r. phone r = form_phone d1) (stored_registrations st2)) = 1) \<and>
          (stored_registrations st = [] \<longrightarrow> length (stored_registrations st2) = 1)"
    unfolding Let_def st1_def [symmetric] l using same one first by simp
next
  assume a: "manual_phone f2 = manual_phone f1 \<and> manual_phone f1 \<noteq> [] \<and>
    manual_name f1 \<noteq> [] \<and> manual_name f2 \<noteq> []"
  define a1 where "a1 = addManualRegistration s1 t1 (setManualReg f1 ad)"
  define a2 where "a2 = addManualRegistration s2 t2 (setManualReg f2 a1)"
  from a have n1: "manual_name f1 \<noteq> []" "manual_phone f1 \<noteq> []"
    and n2: "manual_name f2 \<noteq> []" "manual_phone f2 \<noteq> []"
    and p: "manual_phone f2 = manual_phone f1"
    by simp_all
  note r1 = addManualRegistration_adds [OF n1, of s1 t1 ad, folded a1_def]
  note r2 = addManualRegistration_adds [OF n2, of s2 t2 a1, folded a2_def]
  show "let a1 = addManualRegistration s1 t1 (setManualReg f1 ad);
           a2 = addManualRegistration s2 t2 (setManualReg f2 a1)
       in prolens_registrations a2 = Some (admin_registrations a2) \<and>
          length (admin_registrations a2) = length (admin_registrations ad) + 2 \<and>
          length (filter (\<lambda>r. phone r = manual_phone f1) (admin_registrations a2))
            = length (filter (\<lambda>r. phone r = manual_phone f1) (admin_registrations ad)) + 2 \<and>
          (admin_registrations ad = [] \<longrightarrow> length (admin_registrations a2) = 2)"
    unfolding Let_def a1_def [symmetric] a2_def [symmetric]
    by (simp add: r1 r2 p)
qed

lemma dana_fields:
  "form_phone dana_form = ''050-1234567''"
  "manual_phone dana_manual = ''050-1234567''"
  "manual_name dana_manual = ''Dana''"
  "stored_registrations empty_registry = []"
  "admin_registrations empty_registry = []"
  by (simp_all add: dana_form_def dana_manual_def empty_registry_def stored_registrations_def)

theorem registration_dedup_is_path_specific_witness:
  "length (stored_registrations
     (handleRegistration dana_form ''1700000000500'' ''2.1.2026''
       (handleRegistration dana_form ''1700000000000'' ''1.1.2026'' empty_registry))) = 1 \<and>
   length (admin_registrations
     (addManualRegistration ''1700000000500'' ''2.1.2026'' (setManualReg dana_manual
       (addManualRegistration ''1700000000000'' ''1.1.2026''
         (setManualReg dana_manual empty_registry))))) = 2"
proof -
  have h: "manual_phone dana_manual = manual_phone dana_manual \<and> manual_phone dana_manual \<noteq> [] \<and>
    manual_name dana_manual \<noteq> [] \<and> manual_name dana_manual \<noteq> []"
    by (simp add: dana_fields)
  note t = registration_dedup_is_path_specific
    [where ?d1.0 = dana_form and ?d2.0 = dana_form and st = empty_registry
       and ?f1.0 = dana_manual and ?f2.0 = dana_manual and ad = empty_registry,
     unfolded Let_def]
  have a: "length (stored_registrations
     (handleRegistration dana_form ''1700000000500'' ''2.1.2026''
       (handleRegistration dana_form ''1700000000000'' ''1.1.2026'' empty_registry))) = 1"
    using t [THEN conjunct1, rule_format, OF refl] dana_fields(4) by blast
  have b: "length (admin_registrations
     (addManualRegistration ''1700000000500'' ''2.1.2026'' (setManualReg dana_manual
       (addManualRegistration ''1700000000000'' ''1.1.2026''
         (setManualReg dana_manual empty_registry))))) = 2"
    using t [THEN conjunct2, rule_format, OF h] dana_fields(5) by blast
  show ?thesis
    using a b by (intro conjI)
qed

section \<open>Properties of the cloud service\<close>

text \<open>
  Claim C6. \<^verbatim>\<open>deleteMaterialFromCloud\<close> with the database handle set deletes the document
  record first. When that deletion goes through, the function returns normally and the
  record is gone, whatever becomes of the blob: for a content reference that points into
  object storage (it contains \<^verbatim>\<open>firebasestorage\<close>) the blob deletion is requested after
  the record deletion, and when the backend rejects it the failure is written to the
  console, the blob stays, and nothing is raised. When the record deletion itself is
  rejected, the error is raised and no blob deletion is requested.
\<close>

theorem blob_delete_is_best_effort:
  "(db cl \<and> \<not> rejects cl (DeleteDoc i) \<longrightarrow>
      fst (deleteMaterialFromCloud i fileUrl cl) = None \<and>
      docs (snd (deleteMaterialFromCloud i fileUrl cl)) = filter (\<lambda>d. fst d \<noteq> i) (docs cl) \<and>
      i \<notin> fst ` set (docs (snd (deleteMaterialFromCloud i fileUrl cl))) \<and>
      (\<forall>url. fileUrl = Some url \<and> sublist ''firebasestorage'' url \<and> storage cl \<longrightarrow>
         calls (snd (deleteMaterialFromCloud i fileUrl cl))
           = calls cl @ [DeleteDoc i, DeleteObject url] \<and>
         (rejects cl (DeleteObject url) \<longrightarrow>
            cloud_console (snd (deleteMaterialFromCloud i fileUrl cl))
              = cloud_console cl @ [''Error deleting file from storage:''] \<and>
            blobs (snd (deleteMaterialFromCloud i fileUrl cl)) = blobs cl) \<and>
         (\<not> rejects cl (DeleteObject url) \<longrightarrow>
            url \<notin> set (blobs (snd (deleteMaterialFromCloud i fileUrl cl)))))) \<and>
   (db cl \<and> rejects cl (DeleteDoc i) \<longrightarrow>
      fst (deleteMaterialFromCloud i fileUrl cl) = Some (Rejected (DeleteDoc i)) \<and>
      calls (snd (deleteMaterialFromCloud i fileUrl cl)) = calls cl @ [DeleteDoc i] \<and>
      docs (snd (deleteMaterialFromCloud i fileUrl cl)) = docs cl \<and>
      blobs (snd (deleteMaterialFromCloud i fileUrl cl)) = blobs cl)"
proof (intro conjI impI allI)
  assume a: "db cl \<and> \<not> rejects cl (DeleteDoc i)"
  then show "fst (deleteMaterialFromCloud i fileUrl cl) = None"
    by (simp add: deleteMaterialFromCloud_def Let_def split: option.splits)
  from a show d: "docs (snd (deleteMaterialFromCloud i fileUrl cl))
      = filter (\<lambda>d. fst d \<noteq> i) (docs cl)"
    by (simp add: deleteMaterialFromCloud_def Let_def split: option.splits)
  show "i \<notin> fst ` set (docs (snd (deleteMaterialFromCloud i fileUrl cl)))"
    unfolding d by auto
next
  fix url
  assume a: "db cl \<and> \<not> rejects cl (DeleteDoc i)"
    and u: "fileUrl = Some url \<and> sublist ''firebasestorage'' url \<and> storage cl"
  from u have ne: "url \<noteq> []"
    by auto
  from a u ne show "calls (snd (deleteMaterialFromCloud i fileUrl cl))
           = calls cl @ [DeleteDoc i, DeleteObject url]"
    by (simp add: deleteMaterialFromCloud_def Let_def)
  from a u ne show "cloud_console (snd (deleteMaterialFromCloud i fileUrl cl))
              = cloud_console cl @ [''Error deleting file from storage:'']"
    if "rejects cl (DeleteObject url)"
    using that by (simp add: deleteMaterialFromCloud_def Let_def)
  from a u ne show "blobs (snd (deleteMaterialFromCloud i fileUrl cl)) = blobs cl"
    if "rejects cl (DeleteObject url)"
    using that by (simp add: deleteMaterialFromCloud_def Let_def)
  from a u ne show "url \<notin> set (blobs (snd (deleteMaterialFromCloud i fileUrl cl)))"
    if "\<not> rejects cl (DeleteObject url)"
    using that by (simp add: deleteMaterialFromCloud_def Let_def)
next
  assume a: "db cl \<and> rejects cl (DeleteDoc i)"
  then show "fst (deleteMaterialFromCloud i fileUrl cl) = Some (Rejected (DeleteDoc i))"
    and "calls (snd (deleteMaterialFromCloud i fileUrl cl)) = calls cl @ [DeleteDoc i]"
    and "docs (snd (deleteMaterialFromCloud i fileUrl cl)) = docs cl"
    and "blobs (snd (deleteMaterialFromCloud i fileUrl cl)) = blobs cl"
    by (simp_all add: deleteMaterialFromCloud_def Let_def)
qed

lemma sample_cloud_fields:
  "db sample_cloud"
  "storage sample_cloud"
  "\<not> rejects sample_cloud (DeleteDoc i)"
  "rejects sample_cloud (DeleteObject u)"
  "\<not> rejects sample_cloud (UploadBytes p)"
  "\<not> rejects sample_cloud (GetDownloadURL p)"
  "\<not> rejects sample_cloud (AddDoc d)"
  "calls sample_cloud = []"
  "blobs sample_cloud = [sample_url]"
  "cloud_console sample_cloud = []"
  "apiKey sample_cloud = ''AIzaSy-demo''"
  by (simp_all add: sample_cloud_def)

lemma sample_url_in_storage: "sublist ''firebasestorage'' sample_url"
  unfolding sample_url_def by code_simp

theorem blob_delete_is_best_effort_witness:
  "fst (deleteMaterialFromCloud ''docA'' (Some sample_url) sample_cloud) = None \<and>
   docs (snd (deleteMaterialFromCloud ''docA'' (Some sample_url) sample_cloud)) = [] \<and>
   calls (snd (deleteMaterialFromCloud ''docA'' (Some sample_url) sample_cloud))
     = [DeleteDoc ''docA'', DeleteObject sample_url] \<and>
   cloud_console (snd (deleteMaterialFromCloud ''docA'' (Some sample_url) sample_cloud))
     = [''Error deleting file from storage:''] \<and>
   blobs (snd (deleteMaterialFromCloud ''docA'' (Some sample_url) sample_cloud)) = [sample_url]"
proof -
  have h: "db sample_cloud \<and> \<not> rejects sample_cloud (DeleteDoc ''docA'')"
    by (simp add: sample_cloud_fields)
  have u: "Some sample_url = Some sample_url \<and> sublist ''firebasestorage'' sample_url \<and>
      storage sample_cloud"
    by (simp add: sample_cloud_fields sample_url_in_storage)
  note t = blob_delete_is_best_effort
    [where cl = sample_cloud and i = "''docA''" and fileUrl = "Some sample_url",
     THEN conjunct1, rule_format, OF h]
  have f: "filter (\<lambda>d. fst d \<noteq> ''docA'') (docs sample_cloud) = []"
    by (simp add: sample_cloud_def)
  from t have a: "fst (deleteMaterialFromCloud ''docA'' (Some sample_url) sample_cloud) = None"
    by (elim conjE)
  from t have b: "docs (snd (deleteMaterialFromCloud ''docA'' (Some sample_url) sample_cloud))
      = filter (\<lambda>d. fst d \<noteq> ''docA'') (docs sample_cloud)"
    by (elim conjE)
  from t have r: "\<forall>url. Some sample_url = Some url \<and> sublist ''firebasestorage'' url \<and>
         storage sample_cloud \<longrightarrow>
         calls (snd (deleteMaterialFromCloud ''docA'' (Some sample_url) sample_cloud))
           = calls sample_cloud @ [DeleteDoc ''docA'', DeleteObject url] \<and>
         (rejects sample_cloud (DeleteObject url) \<longrightarrow>
            cloud_console (snd (deleteMaterialFromCloud ''docA'' (Some sample_url) sample_cloud))
              = cloud_console sample_cloud @ [''Error deleting file from storage:''] \<and>
            blobs (snd (deleteMaterialFromCloud ''docA'' (Some sample_url) sample_cloud))
              = blobs sample_cloud) \<and>
         (\<not> rejects sample_cloud (DeleteObject url) \<longrightarrow>
            url \<notin> set (blobs (snd (deleteMaterialFromCloud ''docA'' (Some sample_url)
              sample_cloud))))"
    by (elim conjE)
  note r' = r [rule_format, OF u]
  from r' have c: "calls (snd (deleteMaterialFromCloud ''docA'' (Some sample_url) sample_cloud))
           = calls sample_cloud @ [DeleteDoc ''docA'', DeleteObject sample_url]"
    by (elim conjE)
  from r' sample_cloud_fields(4) [of sample_url]
  have d: "cloud_console (snd (deleteMaterialFromCloud ''docA'' (Some sample_url) sample_cloud))
              = cloud_console sample_cloud @ [''Error deleting file from storage:'']"
    and e: "blobs (snd (deleteMaterialFromCloud ''docA'' (Some sample_url) sample_cloud))
              = blobs sample_cloud"
    by blast+
  show ?thesis
    using a b c d e unfolding f sample_cloud_fields by (simp only: append_Nil simp_thms)
qed

section \<open>Properties of the size limits\<close>


text \<open>
  Claim C5. With the cloud not configured, uploading one file of more than 15MB through
  the learning box is refused: the size-limit message for that file is shown, nothing is
  added to the list of new materials, and the document store, the list shown and the cloud
  service stay as they were. The same file, when it is at most 50MB and can be read, is
  accepted by the course page: no message is shown and \<^verbatim>\<open>getAll()\<close> of the presentation
  store is one longer, the id taken from the clock being new to the store (\<^verbatim>\<open>put\<close>
  replaces a record that has the same id).
\<close>

theorem size_limit_is_path_specific:
  "(\<not> isCloudConfigured st \<and> file_size f > 15 * 1024 * 1024 \<longrightarrow>
      fst (processFiles [(f, t)] st) = [] \<and>
      lb_alerts (snd (processFiles [(f, t)] st)) = lb_alerts st @ [FileTooLarge (file_name f)] \<and>
      store_getAll (localDB (snd (processFiles [(f, t)] st))) = store_getAll (localDB st) \<and>
      materials (snd (processFiles [(f, t)] st)) = materials st \<and>
      firebase (snd (processFiles [(f, t)] st)) = firebase st) \<and>
   (file_size f \<le> 50 * 1024 * 1024 \<and> file_data f = Some content \<and> contentDB_ok pg \<and>
    stamp \<notin> set (map doc_id (contentDB pg)) \<longrightarrow>
      course_alerts (handleFileChange (Some f) stamp today pg) = course_alerts pg \<and>
      length (store_getAll (contentDB (handleFileChange (Some f) stamp today pg)))
        = Suc (length (store_getAll (contentDB pg))) \<and>
      presentations (handleFileChange (Some f) stamp today pg) =
        presentations pg @ [\<lparr>doc_id = stamp, doc_name = file_name f, doc_type = file_type f,
                              doc_date = today, doc_content = content\<rparr>])"
proof (intro conjI impI)
  assume a: "\<not> isCloudConfigured st \<and> file_size f > 15 * 1024 * 1024"
  then have p: "process_one f t (st\<lparr>saveStatus := Saving\<rparr>) =
      (None, False, st\<lparr>saveStatus := Saving,
                         lb_alerts := lb_alerts st @ [FileTooLarge (file_name f)]\<rparr>)"
    by (simp add: process_one_def)
  show "fst (processFiles [(f, t)] st) = []"
    and "lb_alerts (snd (processFiles [(f, t)] st)) = lb_alerts st @ [FileTooLarge (file_name f)]"
    and "store_getAll (localDB (snd (processFiles [(f, t)] st))) = store_getAll (localDB st)"
    and "materials (snd (processFiles [(f, t)] st)) = materials st"
    and "firebase (snd (processFiles [(f, t)] st)) = firebase st"
    by (simp_all add: processFiles_def p store_getAll_def)
next
  assume a: "file_size f \<le> 50 * 1024 * 1024 \<and> file_data f = Some content \<and> contentDB_ok pg \<and>
    stamp \<notin> set (map doc_id (contentDB pg))"
  define newDoc where "newDoc = \<lparr>doc_id = stamp, doc_name = file_name f, doc_type = file_type f,
                              doc_date = today, doc_content = content\<rparr>"
  from a have "presentation_key newDoc \<notin> set (map presentation_key (contentDB pg))"
    by (auto simp: presentation_key_def newDoc_def)
  from store_insert_length [OF this]
  have len: "length (store_insert str_less presentation_key newDoc (contentDB pg))
               = Suc (length (contentDB pg))" .
  from a have h: "handleFileChange (Some f) stamp today pg =
      pg\<lparr>isUploading := True,
         contentDB := store_insert str_less presentation_key newDoc (contentDB pg),
         presentations := presentations pg @ [newDoc], isUploading := False\<rparr>"
    unfolding newDoc_def
    by (simp add: handleFileChange_def saveToDB_def Let_def store_put_def presentation_key_def)
  show "course_alerts (handleFileChange (Some f) stamp today pg) = course_alerts pg"
    and "length (store_getAll (contentDB (handleFileChange (Some f) stamp today pg)))
        = Suc (length (store_getAll (contentDB pg)))"
    and "presentations (handleFileChange (Some f) stamp today pg) =
        presentations pg @ [\<lparr>doc_id = stamp, doc_name = file_name f, doc_type = file_type f,
                              doc_date = today, doc_content = content\<rparr>]"
    unfolding h using len by (simp_all add: store_getAll_def newDoc_def)
qed

lemma big_file_fields:
  "file_size big_file = 20 * 1024 * 1024"
  "file_name big_file = ''lecture.mp4''"
  "file_data big_file = Some ''data:video/mp4;base64,AAAA''"
  by (simp_all add: big_file_def)

lemma local_box_fields:
  "\<not> isCloudConfigured local_box"
  "lb_alerts local_box = []"
  "localDB local_box = [analyzed_material, fresh_material]"
  "materials local_box = [analyzed_material, fresh_material]"
  "localDB_ok local_box"
  "firebase local_box = unconfigured_cloud"
  by (simp_all add: local_box_def)

lemma empty_course_fields:
  "contentDB_ok empty_course"
  "contentDB empty_course = []"
  "course_alerts empty_course = []"
  by (simp_all add: empty_course_def)

theorem size_limit_is_path_specific_witness:
  "lb_alerts (snd (processFiles [(big_file, sample_tick)] local_box))
     = [FileTooLarge ''lecture.mp4''] \<and>
   store_getAll (localDB (snd (processFiles [(big_file, sample_tick)] local_box)))
     = store_getAll (localDB local_box) \<and>
   course_alerts (handleFileChange (Some big_file) ''1700000000000'' ''1.1.2026'' empty_course)
     = [] \<and>
   length (store_getAll (contentDB
       (handleFileChange (Some big_file) ''1700000000000'' ''1.1.2026'' empty_course)))
     = Suc (length (store_getAll (contentDB empty_course)))"
proof -
  have h1: "\<not> isCloudConfigured local_box \<and> file_size big_file > 15 * 1024 * 1024"
    by (simp add: local_box_fields big_file_fields)
  have h2: "file_size big_file \<le> 50 * 1024 * 1024 \<and>
      file_data big_file = Some ''data:video/mp4;base64,AAAA'' \<and> contentDB_ok empty_course \<and>
      ''1700000000000'' \<notin> set (map doc_id (contentDB empty_course))"
    by (simp add: big_file_fields empty_course_fields)
  note t1 = size_limit_is_path_specific
    [where st = local_box and f = big_file and t = sample_tick, THEN conjunct1, rule_format, OF h1]
  note t2 = size_limit_is_path_specific
    [where f = big_file and pg = empty_course and stamp = "''1700000000000''"
       and today = "''1.1.2026''" and content = "''data:video/mp4;base64,AAAA''",
     THEN conjunct2, rule_format, OF h2]
  have a: "lb_alerts (snd (processFiles [(big_file, sample_tick)] local_box))
     = [FileTooLarge ''lecture.mp4'']"
    using t1 [THEN conjunct2, THEN conjunct1]
    by (simp add: local_box_fields big_file_fields)
  have b: "store_getAll (localDB (snd (processFiles [(big_file, sample_tick)] local_box)))
     = store_getAll (localDB local_box)"
    by (rule t1 [THEN conjunct2, THEN conjunct2, THEN conjunct1])
  have c: "course_alerts
      (handleFileChange (Some big_file) ''1700000000000'' ''1.1.2026'' empty_course) = []"
    using t2 [THEN conjunct1] by (simp add: empty_course_fields)
  have d: "length (store_getAll (contentDB
       (handleFileChange (Some big_file) ''1700000000000'' ''1.1.2026'' empty_course)))
     = Suc (length (store_getAll (contentDB empty_course)))"
    by (rule t2 [THEN conjunct2, THEN conjunct1])
  show ?thesis
    by (intro conjI a b c d)
qed

section \<open>Properties of the learning box in local mode\<close>

lemma saveMaterialToLocalDB_frame [simp]:
  "firebase (snd (saveMaterialToLocalDB m st)) = firebase st"
  "isCloudConfigured (snd (saveMaterialToLocalDB m st)) = isCloudConfigured st"
  "lb_alerts (snd (saveMaterialToLocalDB m st)) = lb_alerts st"
  "materials (snd (saveMaterialToLocalDB m st)) = materials st"
  "localDB_ok (snd (saveMaterialToLocalDB m st)) = localDB_ok st"
  by (simp_all add: saveMaterialToLocalDB_def)

lemma process_one_mode [simp]:
  "isCloudConfigured (snd (snd (process_one f t st))) = isCloudConfigured st"
  by (auto simp: process_one_def Let_def save_failed_def saveMaterialToLocalDB_def
      split: prod.splits sum.splits option.splits)

lemma process_one_local:
  "\<not> isCloudConfigured st \<Longrightarrow> firebase (snd (snd (process_one f t st))) = firebase st"
  by (auto simp: process_one_def Let_def save_failed_def saveMaterialToLocalDB_def
      split: prod.splits sum.splits option.splits)

lemma process_each_state:
  "snd (snd (process_each ((f, t) # files) st))
     = snd (snd (process_each files (snd (snd (process_one f t st)))))"
  by (simp split: prod.splits)

lemma processFiles_state:
  "firebase (snd (processFiles files st))
     = firebase (snd (snd (process_each files (st\<lparr>saveStatus := Saving\<rparr>))))"
  "lb_alerts (snd (processFiles files st))
     = lb_alerts (snd (snd (process_each files (st\<lparr>saveStatus := Saving\<rparr>))))"
  "localDB (snd (processFiles files st))
     = localDB (snd (snd (process_each files (st\<lparr>saveStatus := Saving\<rparr>))))"
  "materials (snd (processFiles files st))
     = materials (snd (snd (process_each files (st\<lparr>saveStatus := Saving\<rparr>))))"
  by (simp_all add: processFiles_def split: prod.splits)

lemma process_each_mode [simp]:
  "isCloudConfigured (snd (snd (process_each files st))) = isCloudConfigured st"
proof (induction files arbitrary: st)
  case Nil
  then show ?case by simp
next
  case (Cons ft files)
  obtain f t where ft: "ft = (f, t)" by (cases ft)
  show ?case
    unfolding ft process_each_state Cons.IH by simp
qed

lemma process_each_local:
  "\<not> isCloudConfigured st \<Longrightarrow> firebase (snd (snd (process_each files st))) = firebase st"
proof (induction files arbitrary: st)
  case Nil
  then show ?case by simp
next
  case (Cons ft files)
  obtain f t where ft: "ft = (f, t)" by (cases ft)
  from Cons.prems have "\<not> isCloudConfigured (snd (snd (process_one f t st)))"
    by simp
  from Cons.IH [OF this] show ?case
    unfolding ft process_each_state using Cons.prems by (simp add: process_one_local)
qed

lemma processFiles_local:
  "\<not> isCloudConfigured st \<Longrightarrow> firebase (snd (processFiles files st)) = firebase st"
  using process_each_local [of "st\<lparr>saveStatus := Saving\<rparr>" files]
  by (simp add: processFiles_state)

lemma removeMaterial_local:
  "\<not> isCloudConfigured st \<Longrightarrow> firebase (removeMaterial i url c st) = firebase st"
  by (simp add: removeMaterial_def deleteMaterialFromLocalDB_def delete_failed_def)

lemma save_marked_frame [simp]:
  "firebase (snd (save_marked ms st)) = firebase st"
  "isCloudConfigured (snd (save_marked ms st)) = isCloudConfigured st"
  "materials (snd (save_marked ms st)) = materials st"
  by (induction ms arbitrary: st) (simp_all add: saveMaterialToLocalDB_def)

lemma markMaterialsAsAnalyzed_local:
  "\<not> isCloudConfigured st \<Longrightarrow> firebase (snd (markMaterialsAsAnalyzed rendered ms st)) = firebase st"
  by (simp add: markMaterialsAsAnalyzed_def)

lemma loadMaterials_mode:
  "isCloudConfigured (loadMaterials st) = isFirebaseConfigured (firebase st)"
  "firebase (loadMaterials st) = firebase st"
  by (simp_all add: loadMaterials_def)

lemma local_writes:
  assumes "\<not> isCloudConfigured st" "localDB_ok st"
  shows "localDB (removeMaterial i contentUrl True st) = store_delete material_key i (localDB st)"
    and "localDB (snd (markMaterialsAsAnalyzed rendered [m] st))
           = put_material (m\<lparr>isAnalyzed := Some True\<rparr>) (localDB st)"
    and "file_size f \<le> 15 * 1024 * 1024 \<Longrightarrow> file_data f = Some base64 \<Longrightarrow>
         localDB (snd (processFiles [(f, t)] st))
           = put_material \<lparr>mat_id = now t @ random t, mat_type = kind_of (file_type f),
                            mat_name = file_name f, mat_content = base64,
                            mimeType = Some (file_type f), isAnalyzed = Some False\<rparr>
               (localDB st)"
  using assms
  by (simp_all add: removeMaterial_def deleteMaterialFromLocalDB_def
      markMaterialsAsAnalyzed_def saveMaterialToLocalDB_def processFiles_def process_one_def
      Let_def)

text \<open>
  Claim C3. When the cloud is not configured, the learning box runs in local mode, and in
  local mode uploading (\<^verbatim>\<open>processFiles\<close>), deleting (\<^verbatim>\<open>removeMaterial\<close>) and marking
  (\<^verbatim>\<open>markMaterialsAsAnalyzed\<close>, whatever list it was rendered with) leave the cloud
  service exactly as it was: no request is made to it, no document and no blob changes.
  The writes go to the local object
  store: deleting removes the record of that id, marking puts the marked record, an
  upload of a readable file within the size limit puts the new record.
\<close>

theorem local_mode_never_calls_cloud:
  "(\<not> isFirebaseConfigured (firebase st0) \<longrightarrow> \<not> isCloudConfigured (loadMaterials st0)) \<and>
   (\<not> isCloudConfigured st \<longrightarrow>
      firebase (snd (processFiles files st)) = firebase st \<and>
      firebase (removeMaterial i contentUrl confirmed st) = firebase st \<and>
      firebase (snd (markMaterialsAsAnalyzed rendered materialsToMark st)) = firebase st) \<and>
   (\<not> isCloudConfigured st \<and> localDB_ok st \<longrightarrow>
      localDB (removeMaterial i contentUrl True st) = store_delete material_key i (localDB st) \<and>
      localDB (snd (markMaterialsAsAnalyzed rendered [m] st))
        = put_material (m\<lparr>isAnalyzed := Some True\<rparr>) (localDB st) \<and>
      (file_size f \<le> 15 * 1024 * 1024 \<and> file_data f = Some base64 \<longrightarrow>
         localDB (snd (processFiles [(f, t)] st))
           = put_material \<lparr>mat_id = now t @ random t, mat_type = kind_of (file_type f),
                            mat_name = file_name f, mat_content = base64,
                            mimeType = Some (file_type f), isAnalyzed = Some False\<rparr>
               (localDB st)))"
  by (simp add: loadMaterials_mode processFiles_local removeMaterial_local
      markMaterialsAsAnalyzed_local local_writes)

lemma unconfigured_cloud_fields:
  "\<not> isFirebaseConfigured unconfigured_cloud"
  "calls unconfigured_cloud = []"
  by (simp_all add: unconfigured_cloud_def isFirebaseConfigured_def)

theorem local_mode_never_calls_cloud_witness:
  "\<not> isFirebaseConfigured (firebase local_box) \<and>
   \<not> isCloudConfigured (loadMaterials local_box) \<and>
   calls (firebase (snd (processFiles [(big_file, sample_tick)] local_box))) = [] \<and>
   calls (firebase (removeMaterial ''m1'' ''hello'' True local_box)) = [] \<and>
   calls (firebase (snd (markMaterialsAsAnalyzed (materials local_box) [fresh_material]
       local_box))) = [] \<and>
   localDB (removeMaterial ''m1'' ''hello'' True local_box) = [fresh_material]"
proof -
  have n: "\<not> isFirebaseConfigured (firebase local_box)"
    by (simp add: local_box_fields unconfigured_cloud_fields)
  have l: "\<not> isCloudConfigured local_box"
    by (rule local_box_fields)
  have lo: "\<not> isCloudConfigured local_box \<and> localDB_ok local_box"
    by (simp add: local_box_fields)
  note t = local_mode_never_calls_cloud
    [where ?st0.0 = local_box and st = local_box]
  have a: "\<not> isCloudConfigured (loadMaterials local_box)"
    by (rule t [THEN conjunct1, rule_format, OF n])
  note u = t [THEN conjunct2, THEN conjunct1, rule_format, OF l]
  have b: "calls (firebase (snd (processFiles [(big_file, sample_tick)] local_box))) = []"
    unfolding u [THEN conjunct1] by (simp add: local_box_fields unconfigured_cloud_fields)
  have c: "calls (firebase (removeMaterial ''m1'' ''hello'' True local_box)) = []"
    unfolding u [THEN conjunct2, THEN conjunct1]
    by (simp add: local_box_fields unconfigured_cloud_fields)
  have d: "calls (firebase (snd (markMaterialsAsAnalyzed (materials local_box) [fresh_material]
       local_box))) = []"
    unfolding u [THEN conjunct2, THEN conjunct2]
    by (simp add: local_box_fields unconfigured_cloud_fields)
  have e: "localDB (removeMaterial ''m1'' ''hello'' True local_box) = [fresh_material]"
    unfolding t [THEN conjunct2, THEN conjunct2, rule_format, OF lo, THEN conjunct1]
    by (simp add: local_box_fields store_delete_def material_key_def analyzed_material_def
        fresh_material_def)
  show ?thesis
    by (intro conjI n a b c d e)
qed

section \<open>Properties of the learning box in cloud mode\<close>

lemma uploadFileToCloud_frame:
  "storage (snd (uploadFileToCloud n f cl)) = storage cl"
  "db (snd (uploadFileToCloud n f cl)) = db cl"
  "rejects (snd (uploadFileToCloud n f cl)) = rejects cl"
  "filter is_upload (calls (snd (uploadFileToCloud n f cl))) =
     filter is_upload (calls cl) @
       (if storage cl then [UploadBytes (''materials/'' @ n @ ''_'' @ file_name f)] else [])"
  by (simp_all add: uploadFileToCloud_def Let_def)

lemma addMaterialToCloud_frame:
  "storage (snd (addMaterialToCloud n d cl)) = storage cl"
  "db (snd (addMaterialToCloud n d cl)) = db cl"
  "rejects (snd (addMaterialToCloud n d cl)) = rejects cl"
  "filter is_upload (calls (snd (addMaterialToCloud n d cl))) = filter is_upload (calls cl)"
  by (simp_all add: addMaterialToCloud_def Let_def)

lemma process_one_cloud:
  assumes "isCloudConfigured st"
  shows "lb_alerts (snd (snd (process_one f t st))) = lb_alerts st"
    and "localDB (snd (snd (process_one f t st))) = localDB st"
    and "storage (firebase (snd (snd (process_one f t st)))) = storage (firebase st)"
    and "filter is_upload (calls (firebase (snd (snd (process_one f t st))))) =
           filter is_upload (calls (firebase st)) @
             (if storage (firebase st) then [upload_of (f, t)] else [])"
  using assms
  by (auto simp: process_one_def Let_def save_failed_def uploadFileToCloud_def
      addMaterialToCloud_def upload_of_def split: prod.splits sum.splits option.splits
      if_splits)

lemma process_each_cloud:
  "isCloudConfigured st \<Longrightarrow>
     lb_alerts (snd (snd (process_each files st))) = lb_alerts st \<and>
     localDB (snd (snd (process_each files st))) = localDB st \<and>
     filter is_upload (calls (firebase (snd (snd (process_each files st))))) =
       filter is_upload (calls (firebase st)) @
         (if storage (firebase st) then map upload_of files else [])"
proof (induction files arbitrary: st)
  case Nil
  then show ?case by simp
next
  case (Cons ft files)
  obtain f t where ft: "ft = (f, t)" by (cases ft)
  from Cons.prems have c: "isCloudConfigured (snd (snd (process_one f t st)))"
    by simp
  note p = process_one_cloud [OF Cons.prems, of f t]
  from Cons.IH [OF c] show ?case
    unfolding ft process_each_state by (simp add: p)
qed

text \<open>
  Claim C9. In cloud mode \<^verbatim>\<open>processFiles\<close> makes no size check: whatever the sizes of the
  files, no size-limit message is shown (the alerts are as before), the local store is
  not touched, and, the storage handle being set, an upload is requested for every file,
  in order. The 15MB refusal belongs to the local branch alone (Claim C5).
\<close>

theorem cloud_upload_has_no_size_check:
  "isCloudConfigured st \<longrightarrow>
     lb_alerts (snd (processFiles files st)) = lb_alerts st \<and>
     localDB (snd (processFiles files st)) = localDB st \<and>
     (storage (firebase st) \<longrightarrow>
        filter is_upload (calls (firebase (snd (processFiles files st)))) =
          filter is_upload (calls (firebase st)) @ map upload_of files)"
  using process_each_cloud [of "st\<lparr>saveStatus := Saving\<rparr>" files]
  by (simp add: processFiles_state)


lemma cloud_box_fields:
  "isCloudConfigured cloud_box"
  "lb_alerts cloud_box = []"
  "localDB cloud_box = []"
  "firebase cloud_box = sample_cloud"
  by (simp_all add: cloud_box_def)

theorem cloud_upload_has_no_size_check_witness:
  "file_size big_file > 15 * 1024 * 1024 \<and>
   lb_alerts (snd (processFiles [(big_file, sample_tick)] cloud_box)) = [] \<and>
   filter is_upload (calls (firebase (snd (processFiles [(big_file, sample_tick)] cloud_box))))
     = [UploadBytes ''materials/1700000000000_lecture.mp4'']"
proof -
  have s: "storage (firebase cloud_box)"
    by (simp add: cloud_box_fields sample_cloud_def)
  note t = cloud_upload_has_no_size_check
    [where st = cloud_box and files = "[(big_file, sample_tick)]", rule_format,
     OF cloud_box_fields(1)]
  have a: "file_size big_file > 15 * 1024 * 1024"
    by (simp add: big_file_def)
  have b: "lb_alerts (snd (processFiles [(big_file, sample_tick)] cloud_box)) = []"
    unfolding t [THEN conjunct1] by (rule cloud_box_fields)
  have c: "filter is_upload
      (calls (firebase (snd (processFiles [(big_file, sample_tick)] cloud_box))))
     = [UploadBytes ''materials/1700000000000_lecture.mp4'']"
    unfolding t [THEN conjunct2, THEN conjunct2, rule_format, OF s]
    by (simp add: cloud_box_fields sample_cloud_def upload_of_def big_file_def sample_tick_def)
  show ?thesis
    by (intro conjI a b c)
qed

section \<open>Properties of the analysed mark\<close>

lemma keeps_analyzedI:
  assumes "distinct (map mat_id before)"
    and "set after \<subseteq> set before \<union> N"
    and "\<And>n b. n \<in> N \<Longrightarrow> b \<in> set before \<Longrightarrow> mat_id b = mat_id n \<Longrightarrow>
           isAnalyzed b = Some True \<Longrightarrow> isAnalyzed n = Some True"
  shows "keeps_analyzed before after"
  unfolding keeps_analyzed_def list_all_iff list_ex_iff
proof (intro ballI impI)
  fix a
  assume a: "a \<in> set after"
    and "\<exists>b \<in> set before. mat_id b = mat_id a \<and> isAnalyzed b = Some True"
  then obtain b where b: "b \<in> set before" "mat_id b = mat_id a" "isAnalyzed b = Some True"
    by blast
  from a assms(2) consider "a \<in> set before" | "a \<in> N" by blast
  then show "isAnalyzed a = Some True"
  proof cases
    case 1
    with b assms(1) have "a = b"
      by (metis distinct_map inj_onD)
    with b show ?thesis by simp
  next
    case 2
    with b assms(3) show ?thesis by blast
  qed
qed

lemma put_material_insert:
  "put_material m s = store_insert str_less material_key m s"
  by (simp add: put_material_def store_put_def material_key_def)

lemma put_material_subset: "set (put_material m s) \<subseteq> insert m (set s)"
  unfolding put_material_insert by (rule store_insert_subset)

lemma put_material_get:
  "store_get material_key i (put_material m s) =
     (if i = mat_id m then Some m else store_get material_key i s)"
  unfolding put_material_insert
  using store_insert_get [of material_key m "mat_id m" i str_less s]
  by (simp add: material_key_def)

lemma put_material_present:
  "store_ok str_less material_key s \<Longrightarrow> m \<in> set s \<Longrightarrow> put_material m s = s"
  unfolding put_material_insert by (rule store_insert_present [OF str_less_asym])

lemma save_marked_subset:
  "set (localDB (snd (save_marked ms st)))
     \<subseteq> set (localDB st) \<union> (\<lambda>m. m\<lparr>isAnalyzed := Some True\<rparr>) ` set ms"
proof (induction ms arbitrary: st)
  case Nil
  then show ?case by simp
next
  case (Cons m ms)
  show ?case
  proof (cases "localDB_ok st")
    case False
    then show ?thesis by (auto simp: saveMaterialToLocalDB_def)
  next
    case True
    let ?st = "st\<lparr>localDB := put_material (m\<lparr>isAnalyzed := Some True\<rparr>) (localDB st)\<rparr>"
    from True have "save_marked (m # ms) st = save_marked ms ?st"
      by (simp add: saveMaterialToLocalDB_def)
    with Cons.IH [of ?st] put_material_subset [of "m\<lparr>isAnalyzed := Some True\<rparr>" "localDB st"]
    show ?thesis by auto
  qed
qed

lemma save_marked_present:
  assumes "localDB_ok st" "store_ok str_less material_key (localDB st)"
    and "set ms \<subseteq> set (localDB st)" "\<forall>m \<in> set ms. isAnalyzed m = Some True"
  shows "save_marked ms st = (None, st)"
  using assms
proof (induction ms)
  case Nil
  then show ?case by simp
next
  case (Cons m ms)
  then have e: "m\<lparr>isAnalyzed := Some True\<rparr> = m" by simp
  from Cons.prems have p: "put_material (m\<lparr>isAnalyzed := Some True\<rparr>) (localDB st) = localDB st"
    unfolding e by (intro put_material_present) simp_all
  from Cons have "save_marked ms st = (None, st)" by simp
  with Cons.prems(1) show ?case
    by (simp add: saveMaterialToLocalDB_def p)
qed

lemma mark_in_cloud_analyzed:
  "\<forall>m \<in> set ms. isAnalyzed m = Some True \<Longrightarrow> mark_in_cloud ms cl = (None, cl)"
  by (induction ms) simp_all


lemma keeps_analyzed_same: "distinct (map mat_id s) \<Longrightarrow> set s' \<subseteq> set s \<Longrightarrow> keeps_analyzed s s'"
  by (rule keeps_analyzedI [where N = "{}"]) auto

lemma with_id_fields [simp]:
  "mat_id (with_id i d) = i"
  "isAnalyzed (with_id i d) = d_isAnalyzed d"
  by (simp_all add: with_id_def)

lemma snapshot_ids: "map mat_id (snapshot cl) = rev (map fst (docs cl))"
  by (simp add: snapshot_def rev_map comp_def)

lemma distinct_snapshot: "distinct (map fst (docs cl)) \<Longrightarrow> distinct (map mat_id (snapshot cl))"
  by (simp add: snapshot_ids)

lemma updateMaterialAnalysis_true:
  "set (snapshot (snd (updateMaterialAnalysis i True cl)))
     \<subseteq> set (snapshot cl) \<union> {n. isAnalyzed n = Some True}"
  by (auto simp: updateMaterialAnalysis_def snapshot_def Let_def)

lemma updateMaterialAnalysis_calls:
  "set (calls (snd (updateMaterialAnalysis i b cl))) \<subseteq> insert (UpdateDoc i b) (set (calls cl))"
  by (auto simp: updateMaterialAnalysis_def Let_def)

lemma mark_in_cloud_subset:
  "set (snapshot (snd (mark_in_cloud ms cl)))
     \<subseteq> set (snapshot cl) \<union> {n. isAnalyzed n = Some True}"
proof (induction ms arbitrary: cl)
  case Nil
  then show ?case by simp
next
  case (Cons m ms)
  show ?case
  proof (cases "isAnalyzed m = Some True")
    case True
    with Cons.IH [of cl] show ?thesis by simp
  next
    case False
    obtain r cl' where u: "updateMaterialAnalysis (mat_id m) True cl = (r, cl')"
      by (cases "updateMaterialAnalysis (mat_id m) True cl")
    from updateMaterialAnalysis_true [of "mat_id m" cl] u
    have s: "set (snapshot cl') \<subseteq> set (snapshot cl) \<union> {n. isAnalyzed n = Some True}"
      by simp
    show ?thesis
    proof (cases r)
      case None
      with False u have "mark_in_cloud (m # ms) cl = mark_in_cloud ms cl'" by simp
      with Cons.IH [of cl'] s show ?thesis by auto
    next
      case (Some e)
      with False u have "mark_in_cloud (m # ms) cl = (Some e, cl')" by simp
      with s show ?thesis by simp
    qed
  qed
qed

lemma mark_in_cloud_calls:
  "set (calls (snd (mark_in_cloud ms cl)))
     \<subseteq> set (calls cl) \<union> (\<lambda>m. UpdateDoc (mat_id m) True) ` set ms"
proof (induction ms arbitrary: cl)
  case Nil
  then show ?case by simp
next
  case (Cons m ms)
  show ?case
  proof (cases "isAnalyzed m = Some True")
    case True
    with Cons.IH [of cl] show ?thesis by auto
  next
    case False
    obtain r cl' where u: "updateMaterialAnalysis (mat_id m) True cl = (r, cl')"
      by (cases "updateMaterialAnalysis (mat_id m) True cl")
    from updateMaterialAnalysis_calls [of "mat_id m" True cl] u
    have s: "set (calls cl') \<subseteq> insert (UpdateDoc (mat_id m) True) (set (calls cl))"
      by simp
    show ?thesis
    proof (cases r)
      case None
      with False u have "mark_in_cloud (m # ms) cl = mark_in_cloud ms cl'" by simp
      with Cons.IH [of cl'] s show ?thesis by auto
    next
      case (Some e)
      with False u have "mark_in_cloud (m # ms) cl = (Some e, cl')" by simp
      with s show ?thesis by auto
    qed
  qed
qed

lemma markMaterialsAsAnalyzed_cloud:
  assumes "isCloudConfigured st"
  shows "snd (markMaterialsAsAnalyzed rendered ms st)
           = st\<lparr>firebase := snd (mark_in_cloud ms (firebase st))\<rparr>"
    and "fst (markMaterialsAsAnalyzed rendered ms st) = fst (mark_in_cloud ms (firebase st))"
  using assms by (simp_all add: markMaterialsAsAnalyzed_def split_beta)

lemma mark_keeps:
  assumes "distinct (map mat_id (localDB st))" "distinct (map fst (docs (firebase st)))"
  shows "keeps_analyzed (localDB st) (localDB (snd (markMaterialsAsAnalyzed rendered ms st)))"
    and "keeps_analyzed (snapshot (firebase st))
           (snapshot (firebase (snd (markMaterialsAsAnalyzed rendered ms st))))"
proof -
  show "keeps_analyzed (localDB st) (localDB (snd (markMaterialsAsAnalyzed rendered ms st)))"
  proof (cases "isCloudConfigured st")
    case True
    then have "localDB (snd (markMaterialsAsAnalyzed rendered ms st)) = localDB st"
      by (simp add: markMaterialsAsAnalyzed_cloud)
    with assms(1) show ?thesis by (simp add: keeps_analyzed_same)
  next
    case False
    show ?thesis
    proof (rule keeps_analyzedI [OF assms(1), where N = "{n. isAnalyzed n = Some True}"])
      show "set (localDB (snd (markMaterialsAsAnalyzed rendered ms st)))
              \<subseteq> set (localDB st) \<union> {n. isAnalyzed n = Some True}"
        using False save_marked_subset [of ms]
        by (fastforce simp: markMaterialsAsAnalyzed_def)
    qed simp
  qed
  show "keeps_analyzed (snapshot (firebase st))
           (snapshot (firebase (snd (markMaterialsAsAnalyzed rendered ms st))))"
  proof (rule keeps_analyzedI [OF distinct_snapshot [OF assms(2)],
        where N = "{n. isAnalyzed n = Some True}"])
    show "set (snapshot (firebase (snd (markMaterialsAsAnalyzed rendered ms st))))
            \<subseteq> set (snapshot (firebase st)) \<union> {n. isAnalyzed n = Some True}"
    proof (cases "isCloudConfigured st")
      case True
      with mark_in_cloud_subset [of ms "firebase st"] show ?thesis
        by (simp add: markMaterialsAsAnalyzed_cloud)
    next
      case False
      then show ?thesis by (simp add: markMaterialsAsAnalyzed_def)
    qed
  qed simp
qed

lemma mark_keeps_shown:
  assumes "distinct (map mat_id (materials st))"
  shows "keeps_analyzed (materials st)
           (materials (snd (markMaterialsAsAnalyzed (materials st) ms st)))"
proof (rule keeps_analyzedI [OF assms, where N = "{n. isAnalyzed n = Some True}"])
  show "set (materials (snd (markMaterialsAsAnalyzed (materials st) ms st)))
          \<subseteq> set (materials st) \<union> {n. isAnalyzed n = Some True}"
  proof (cases "isCloudConfigured st")
    case True
    then show ?thesis by (simp add: markMaterialsAsAnalyzed_cloud)
  next
    case False
    then show ?thesis by (auto simp: markMaterialsAsAnalyzed_def)
  qed
qed simp


lemma removeMaterial_subset:
  "set (localDB (removeMaterial i u c st)) \<subseteq> set (localDB st)"
  "set (materials (removeMaterial i u c st)) \<subseteq> set (materials st)"
  "set (snapshot (firebase (removeMaterial i u c st))) \<subseteq> set (snapshot (firebase st))"
  by (auto simp: removeMaterial_def deleteMaterialFromCloud_def deleteMaterialFromLocalDB_def
      store_delete_def snapshot_def delete_failed_def Let_def split: option.splits prod.splits)

lemma process_one_subset:
  "set (localDB (snd (snd (process_one f t st))))
     \<subseteq> set (localDB st) \<union> {n. mat_id n = now t @ random t}"
  "set (materials (snd (snd (process_one f t st))))
     \<subseteq> set (materials st) \<union> {n. mat_id n = now t @ random t}"
  "set (snapshot (firebase (snd (snd (process_one f t st)))))
     \<subseteq> set (snapshot (firebase st)) \<union> {n. mat_id n = new_doc_id t}"
  by (auto simp: process_one_def Let_def save_failed_def uploadFileToCloud_def
      addMaterialToCloud_def saveMaterialToLocalDB_def snapshot_def
      dest!: subsetD [OF put_material_subset]
      split: prod.splits sum.splits option.splits if_splits)

lemma process_each_subset:
  "set (localDB (snd (snd (process_each files st))))
     \<subseteq> set (localDB st) \<union> {n. mat_id n \<in> (\<lambda>ft. now (snd ft) @ random (snd ft)) ` set files} \<and>
   set (materials (snd (snd (process_each files st))))
     \<subseteq> set (materials st) \<union> {n. mat_id n \<in> (\<lambda>ft. now (snd ft) @ random (snd ft)) ` set files} \<and>
   set (snapshot (firebase (snd (snd (process_each files st)))))
     \<subseteq> set (snapshot (firebase st)) \<union> {n. mat_id n \<in> (\<lambda>ft. new_doc_id (snd ft)) ` set files}"
proof (induction files arbitrary: st)
  case Nil
  then show ?case by simp
next
  case (Cons ft files)
  obtain f t where ft: "ft = (f, t)" by (cases ft)
  note o = process_one_subset [of f t st]
  note i = Cons.IH [of "snd (snd (process_one f t st))"]
  show ?case
    unfolding ft process_each_state
    using o i by (intro conjI) (simp, blast)+
qed


lemma save_marked_done:
  assumes "fst (save_marked ms st) = None"
    and "\<forall>i \<in> I. map_option isAnalyzed (store_get material_key i (localDB st)) = Some (Some True)"
  shows "\<forall>i \<in> I \<union> mat_id ` set ms.
           map_option isAnalyzed (store_get material_key i (localDB (snd (save_marked ms st))))
             = Some (Some True)"
  using assms
proof (induction ms arbitrary: st I)
  case Nil
  then show ?case by simp
next
  case (Cons m ms)
  from Cons.prems(1) have ok: "localDB_ok st"
    by (auto simp: saveMaterialToLocalDB_def split: if_splits)
  let ?st = "st\<lparr>localDB := put_material (m\<lparr>isAnalyzed := Some True\<rparr>) (localDB st)\<rparr>"
  from ok have e: "save_marked (m # ms) st = save_marked ms ?st"
    by (simp add: saveMaterialToLocalDB_def)
  have inv: "\<forall>i \<in> insert (mat_id m) I.
               map_option isAnalyzed (store_get material_key i (localDB ?st)) = Some (Some True)"
    using Cons.prems(2) by (simp add: put_material_get)
  from Cons.prems(1) e have "fst (save_marked ms ?st) = None" by simp
  from Cons.IH [OF this inv] show ?case
    unfolding e by auto
qed

lemma mark_in_cloud_done:
  assumes "fst (mark_in_cloud ms cl) = None" "db cl"
    and "\<forall>d \<in> set (docs cl). fst d \<in> I \<longrightarrow> d_isAnalyzed (snd d) = Some True"
  shows "\<forall>d \<in> set (docs (snd (mark_in_cloud ms cl))).
           fst d \<in> I \<union> mat_id ` {m \<in> set ms. isAnalyzed m \<noteq> Some True} \<longrightarrow>
           d_isAnalyzed (snd d) = Some True"
  using assms
proof (induction ms arbitrary: cl I)
  case Nil
  then show ?case by simp
next
  case (Cons m ms)
  show ?case
  proof (cases "isAnalyzed m = Some True")
    case True
    with Cons.prems have "fst (mark_in_cloud ms cl) = None" by simp
    from Cons.IH [OF this Cons.prems(2,3)] True show ?thesis by auto
  next
    case False
    obtain r cl' where u: "updateMaterialAnalysis (mat_id m) True cl = (r, cl')"
      by (cases "updateMaterialAnalysis (mat_id m) True cl")
    from False u Cons.prems(1) have r: "r = None"
      by (cases r) simp_all
    with False u have e: "mark_in_cloud (m # ms) cl = mark_in_cloud ms cl'" by simp
    from u r Cons.prems(2) have cl': "db cl'"
      "docs cl' = map (\<lambda>d. if fst d = mat_id m
                             then (fst d, (snd d)\<lparr>d_isAnalyzed := Some True\<rparr>) else d) (docs cl)"
      by (auto simp: updateMaterialAnalysis_def Let_def split: if_splits)
    have inv: "\<forall>d \<in> set (docs cl'). fst d \<in> insert (mat_id m) I \<longrightarrow>
                 d_isAnalyzed (snd d) = Some True"
      unfolding cl'(2) using Cons.prems(3) by auto
    from Cons.prems(1) e have "fst (mark_in_cloud ms cl') = None" by simp
    from Cons.IH [OF this cl'(1) inv] False show ?thesis
      unfolding e by auto
  qed
qed

lemma markMaterialsAsAnalyzed_stored:
  assumes "\<not> isCloudConfigured st" "localDB_ok st"
    and "store_ok str_less material_key (localDB st)"
    and "set ms \<subseteq> set (localDB st)"
    and "\<forall>m \<in> set ms. isAnalyzed m = Some True"
  shows "fst (markMaterialsAsAnalyzed rendered ms st) = None"
    and "localDB (snd (markMaterialsAsAnalyzed rendered ms st)) = localDB st"
    and "firebase (snd (markMaterialsAsAnalyzed rendered ms st)) = firebase st"
proof -
  let ?st = "st\<lparr>materials := map (\<lambda>m. if \<exists>tm \<in> set ms. mat_id tm = mat_id m
                   then m\<lparr>isAnalyzed := Some True\<rparr> else m) rendered\<rparr>"
  from assms(1) have e: "markMaterialsAsAnalyzed rendered ms st = save_marked ms ?st"
    by (simp add: markMaterialsAsAnalyzed_def)
  have "save_marked ms ?st = (None, ?st)"
    using assms by (intro save_marked_present) simp_all
  then show "fst (markMaterialsAsAnalyzed rendered ms st) = None"
    and "localDB (snd (markMaterialsAsAnalyzed rendered ms st)) = localDB st"
    and "firebase (snd (markMaterialsAsAnalyzed rendered ms st)) = firebase st"
    unfolding e by simp_all
qed

lemma markMaterialsAsAnalyzed_present:
  assumes "\<not> isCloudConfigured st" "localDB_ok st"
    and "store_ok str_less material_key (localDB st)" "distinct (map mat_id (materials st))"
    and "set ms \<subseteq> set (localDB st)" "set ms \<subseteq> set (materials st)"
    and "\<forall>m \<in> set ms. isAnalyzed m = Some True"
  shows "markMaterialsAsAnalyzed (materials st) ms st = (None, st)"
proof -
  have "map (\<lambda>m. if \<exists>tm \<in> set ms. mat_id tm = mat_id m
                   then m\<lparr>isAnalyzed := Some True\<rparr> else m) (materials st) = materials st"
  proof (rule map_idI)
    fix x assume x: "x \<in> set (materials st)"
    show "(if \<exists>tm \<in> set ms. mat_id tm = mat_id x then x\<lparr>isAnalyzed := Some True\<rparr> else x) = x"
    proof (cases "\<exists>tm \<in> set ms. mat_id tm = mat_id x")
      case False
      then show ?thesis by simp
    next
      case True
      then obtain tm where tm: "tm \<in> set ms" "mat_id tm = mat_id x" by blast
      with assms(6) have "tm \<in> set (materials st)" by blast
      with x tm(2) assms(4) have "tm = x"
        by (metis distinct_map inj_onD)
      with tm(1) assms(7) have "isAnalyzed x = Some True" by blast
      then show ?thesis by simp
    qed
  qed
  then have "st\<lparr>materials := map (\<lambda>m. if \<exists>tm \<in> set ms. mat_id tm = mat_id m
                   then m\<lparr>isAnalyzed := Some True\<rparr> else m) (materials st)\<rparr> = st"
    by simp
  with assms(1) save_marked_present [OF assms(2,3,5,7)] show ?thesis
    by (simp add: markMaterialsAsAnalyzed_def)
qed


lemma processFiles_keeps:
  assumes u: "ids_unique st" and f: "list_all (\<lambda>ft. fresh_tick st (snd ft)) files"
  shows "monotone_step st (snd (processFiles files st))"
proof -
  let ?st = "st\<lparr>saveStatus := Saving\<rparr>"
  note s = process_each_subset [of files ?st, simplified]
  from f have fr: "\<And>ft. ft \<in> set files \<Longrightarrow> fresh_tick st (snd ft)"
    by (simp add: list_all_iff)
  have a: "keeps_analyzed (localDB st) (localDB (snd (processFiles files st)))"
  proof (rule keeps_analyzedI
      [where N = "{n. mat_id n \<in> (\<lambda>ft. now (snd ft) @ random (snd ft)) ` set files}"])
    show "distinct (map mat_id (localDB st))"
      using u by (simp add: ids_unique_def)
    show "set (localDB (snd (processFiles files st))) \<subseteq> set (localDB st) \<union>
        {n. mat_id n \<in> (\<lambda>ft. now (snd ft) @ random (snd ft)) ` set files}"
      unfolding processFiles_state using s by blast
  next
    fix n b
    assume "n \<in> {n. mat_id n \<in> (\<lambda>ft. now (snd ft) @ random (snd ft)) ` set files}"
      and b: "b \<in> set (localDB st)" "mat_id b = mat_id n"
    then obtain ft where ft: "ft \<in> set files" "mat_id n = now (snd ft) @ random (snd ft)"
      by auto
    from fr [OF ft(1)] have "now (snd ft) @ random (snd ft) \<notin> mat_id ` set (localDB st)"
      by (simp add: fresh_tick_def)
    with b ft(2) have False by (metis imageI)
    then show "isAnalyzed n = Some True" ..
  qed
  have b: "keeps_analyzed (materials st) (materials (snd (processFiles files st)))"
  proof (rule keeps_analyzedI
      [where N = "{n. mat_id n \<in> (\<lambda>ft. now (snd ft) @ random (snd ft)) ` set files}"])
    show "distinct (map mat_id (materials st))"
      using u by (simp add: ids_unique_def)
    show "set (materials (snd (processFiles files st))) \<subseteq> set (materials st) \<union>
        {n. mat_id n \<in> (\<lambda>ft. now (snd ft) @ random (snd ft)) ` set files}"
      unfolding processFiles_state using s by blast
  next
    fix n b
    assume "n \<in> {n. mat_id n \<in> (\<lambda>ft. now (snd ft) @ random (snd ft)) ` set files}"
      and b: "b \<in> set (materials st)" "mat_id b = mat_id n"
    then obtain ft where ft: "ft \<in> set files" "mat_id n = now (snd ft) @ random (snd ft)"
      by auto
    from fr [OF ft(1)] have "now (snd ft) @ random (snd ft) \<notin> mat_id ` set (materials st)"
      by (simp add: fresh_tick_def)
    with b ft(2) have False by (metis imageI)
    then show "isAnalyzed n = Some True" ..
  qed
  have c: "keeps_analyzed (snapshot (firebase st)) (snapshot (firebase (snd (processFiles files st))))"
  proof (rule keeps_analyzedI
      [where N = "{n. mat_id n \<in> (\<lambda>ft. new_doc_id (snd ft)) ` set files}"])
    show "distinct (map mat_id (snapshot (firebase st)))"
      using u by (simp add: ids_unique_def distinct_snapshot)
    show "set (snapshot (firebase (snd (processFiles files st)))) \<subseteq> set (snapshot (firebase st)) \<union>
        {n. mat_id n \<in> (\<lambda>ft. new_doc_id (snd ft)) ` set files}"
      unfolding processFiles_state using s by blast
  next
    fix n b
    assume "n \<in> {n. mat_id n \<in> (\<lambda>ft. new_doc_id (snd ft)) ` set files}"
      and b: "b \<in> set (snapshot (firebase st))" "mat_id b = mat_id n"
    then obtain ft where ft: "ft \<in> set files" "mat_id n = new_doc_id (snd ft)"
      by auto
    have "set (map mat_id (snapshot (firebase st))) = fst ` set (docs (firebase st))"
      unfolding snapshot_ids by simp
    then have i: "mat_id ` set (snapshot (firebase st)) = fst ` set (docs (firebase st))"
      by simp
    from fr [OF ft(1)] have "new_doc_id (snd ft) \<notin> mat_id ` set (snapshot (firebase st))"
      unfolding i by (simp add: fresh_tick_def)
    with b ft(2) have False by (metis imageI)
    then show "isAnalyzed n = Some True" ..
  qed
  from a b c show ?thesis
    by (simp add: monotone_step_def stored_step_def)
qed

lemma removeMaterial_keeps:
  "ids_unique st \<Longrightarrow> monotone_step st (removeMaterial i u c st)"
  unfolding monotone_step_def stored_step_def ids_unique_def
  by (intro conjI keeps_analyzed_same removeMaterial_subset distinct_snapshot) simp_all

lemma mark_done:
  assumes "fst (markMaterialsAsAnalyzed rendered ms st) = None"
  shows "\<not> isCloudConfigured st \<Longrightarrow>
           \<forall>m \<in> set ms.
             map_option isAnalyzed
               (store_get material_key (mat_id m)
                  (localDB (snd (markMaterialsAsAnalyzed rendered ms st)))) = Some (Some True)"
    and "isCloudConfigured st \<Longrightarrow> db (firebase st) \<Longrightarrow>
           \<forall>r \<in> set (snapshot (firebase (snd (markMaterialsAsAnalyzed rendered ms st)))).
             mat_id r \<in> mat_id ` {m \<in> set ms. isAnalyzed m \<noteq> Some True} \<longrightarrow>
             isAnalyzed r = Some True"
proof -
  assume l: "\<not> isCloudConfigured st"
  let ?st = "st\<lparr>materials := map (\<lambda>m. if \<exists>tm \<in> set ms. mat_id tm = mat_id m
                   then m\<lparr>isAnalyzed := Some True\<rparr> else m) rendered\<rparr>"
  from l have e: "markMaterialsAsAnalyzed rendered ms st = save_marked ms ?st"
    by (simp add: markMaterialsAsAnalyzed_def)
  from assms e have "fst (save_marked ms ?st) = None" by simp
  from save_marked_done [OF this, of "{}"]
  show "\<forall>m \<in> set ms.
             map_option isAnalyzed
               (store_get material_key (mat_id m)
                  (localDB (snd (markMaterialsAsAnalyzed rendered ms st)))) = Some (Some True)"
    unfolding e by simp
next
  assume c: "isCloudConfigured st" and d: "db (firebase st)"
  from assms c have "fst (mark_in_cloud ms (firebase st)) = None"
    by (simp add: markMaterialsAsAnalyzed_cloud)
  from mark_in_cloud_done [OF this d, of "{}"]
  show "\<forall>r \<in> set (snapshot (firebase (snd (markMaterialsAsAnalyzed rendered ms st)))).
             mat_id r \<in> mat_id ` {m \<in> set ms. isAnalyzed m \<noteq> Some True} \<longrightarrow>
             isAnalyzed r = Some True"
    unfolding markMaterialsAsAnalyzed_cloud [OF c]
    by (auto simp: snapshot_def)
qed

text \<open>
  Claim C7, as amended. Where a material is stored, in the local store and in the cloud
  collection, marking materials, deleting a material and uploading files (under ids that
  are new) never take the mark from it, in a state where ids are unique: every record
  whose id belonged to an analysed record is analysed afterwards. The same holds of the
  list shown for deleting and uploading, and for marking when \<^verbatim>\<open>markMaterialsAsAnalyzed\<close>
  was rendered with the list of the state. Marking writes nothing but
  \<^verbatim>\<open>isAnalyzed: true\<close>: in cloud mode every request it adds is an update of the flag to
  true, and when it returns normally the marked records are analysed (the record read
  from the local store under the id of each; in the cloud collection the materials that
  were not analysed yet). Marking materials that are analysed already is a no-op: in
  cloud mode no request is made and the state is unchanged; in local mode, for materials
  as they stand in the store, the store is unchanged, and so is the whole state when the
  materials stand in the list as well and the function was rendered with that list. An
  import of a bundle is not among these operations: it replaces the records of the store
  by those of the bundle, whatever their \<^verbatim>\<open>isAnalyzed\<close>.
\<close>

theorem isAnalyzed_is_monotone:
  "(ids_unique st \<longrightarrow>
      stored_step st (snd (markMaterialsAsAnalyzed rendered ms st)) \<and>
      monotone_step st (snd (markMaterialsAsAnalyzed (materials st) ms st)) \<and>
      monotone_step st (removeMaterial i contentUrl confirmed st) \<and>
      (list_all (\<lambda>ft. fresh_tick st (snd ft)) files \<longrightarrow>
         monotone_step st (snd (processFiles files st)))) \<and>
   (isCloudConfigured st \<longrightarrow>
      set (calls (firebase (snd (markMaterialsAsAnalyzed rendered ms st))))
        \<subseteq> set (calls (firebase st)) \<union> (\<lambda>m. UpdateDoc (mat_id m) True) ` set ms) \<and>
   (fst (markMaterialsAsAnalyzed rendered ms st) = None \<longrightarrow>
      (\<not> isCloudConfigured st \<longrightarrow>
         (\<forall>m \<in> set ms.
            map_option isAnalyzed
              (store_get material_key (mat_id m)
                 (localDB (snd (markMaterialsAsAnalyzed rendered ms st)))) = Some (Some True))) \<and>
      (isCloudConfigured st \<and> db (firebase st) \<longrightarrow>
         (\<forall>r \<in> set (snapshot (firebase (snd (markMaterialsAsAnalyzed rendered ms st)))).
            mat_id r \<in> mat_id ` {m \<in> set ms. isAnalyzed m \<noteq> Some True} \<longrightarrow>
            isAnalyzed r = Some True))) \<and>
   (isCloudConfigured st \<and> (\<forall>m \<in> set ms. isAnalyzed m = Some True) \<longrightarrow>
      markMaterialsAsAnalyzed rendered ms st = (None, st)) \<and>
   (\<not> isCloudConfigured st \<and> localDB_ok st \<and> store_ok str_less material_key (localDB st) \<and>
    set ms \<subseteq> set (localDB st) \<and> (\<forall>m \<in> set ms. isAnalyzed m = Some True) \<longrightarrow>
      fst (markMaterialsAsAnalyzed rendered ms st) = None \<and>
      store_getAll (localDB (snd (markMaterialsAsAnalyzed rendered ms st)))
        = store_getAll (localDB st) \<and>
      firebase (snd (markMaterialsAsAnalyzed rendered ms st)) = firebase st \<and>
      (distinct (map mat_id (materials st)) \<and> set ms \<subseteq> set (materials st) \<longrightarrow>
         markMaterialsAsAnalyzed (materials st) ms st = (None, st)))"
proof (intro conjI impI)
  assume u: "ids_unique st"
  then show "stored_step st (snd (markMaterialsAsAnalyzed rendered ms st))"
    unfolding stored_step_def ids_unique_def by (intro conjI mark_keeps) simp_all
  from u show "monotone_step st (snd (markMaterialsAsAnalyzed (materials st) ms st))"
    unfolding monotone_step_def stored_step_def ids_unique_def
    by (intro conjI mark_keeps mark_keeps_shown) simp_all
  from u show "monotone_step st (removeMaterial i contentUrl confirmed st)"
    by (rule removeMaterial_keeps)
  show "monotone_step st (snd (processFiles files st))"
    if "list_all (\<lambda>ft. fresh_tick st (snd ft)) files"
    using u that by (rule processFiles_keeps)
next
  assume c: "isCloudConfigured st"
  show "set (calls (firebase (snd (markMaterialsAsAnalyzed rendered ms st))))
        \<subseteq> set (calls (firebase st)) \<union> (\<lambda>m. UpdateDoc (mat_id m) True) ` set ms"
    unfolding markMaterialsAsAnalyzed_cloud [OF c]
    using mark_in_cloud_calls [of ms "firebase st"] by simp
next
  assume n: "fst (markMaterialsAsAnalyzed rendered ms st) = None"
  show "\<forall>m \<in> set ms.
            map_option isAnalyzed
              (store_get material_key (mat_id m)
                 (localDB (snd (markMaterialsAsAnalyzed rendered ms st)))) = Some (Some True)"
    if "\<not> isCloudConfigured st"
    using mark_done(1) [OF n that] .
  show "\<forall>r \<in> set (snapshot (firebase (snd (markMaterialsAsAnalyzed rendered ms st)))).
            mat_id r \<in> mat_id ` {m \<in> set ms. isAnalyzed m \<noteq> Some True} \<longrightarrow>
            isAnalyzed r = Some True"
    if "isCloudConfigured st \<and> db (firebase st)"
    using mark_done(2) [OF n] that by blast
next
  assume "isCloudConfigured st \<and> (\<forall>m \<in> set ms. isAnalyzed m = Some True)"
  then show "markMaterialsAsAnalyzed rendered ms st = (None, st)"
    by (simp add: markMaterialsAsAnalyzed_def mark_in_cloud_analyzed)
next
  assume a: "\<not> isCloudConfigured st \<and> localDB_ok st \<and>
    store_ok str_less material_key (localDB st) \<and>
    set ms \<subseteq> set (localDB st) \<and> (\<forall>m \<in> set ms. isAnalyzed m = Some True)"
  then have h: "\<not> isCloudConfigured st" "localDB_ok st"
    "store_ok str_less material_key (localDB st)" "set ms \<subseteq> set (localDB st)"
    "\<forall>m \<in> set ms. isAnalyzed m = Some True"
    by simp_all
  note s = markMaterialsAsAnalyzed_stored [OF h, of rendered]
  show "fst (markMaterialsAsAnalyzed rendered ms st) = None"
    by (rule s(1))
  show "store_getAll (localDB (snd (markMaterialsAsAnalyzed rendered ms st)))
        = store_getAll (localDB st)"
    by (simp add: s(2))
  show "firebase (snd (markMaterialsAsAnalyzed rendered ms st)) = firebase st"
    by (rule s(3))
  show "markMaterialsAsAnalyzed (materials st) ms st = (None, st)"
    if "distinct (map mat_id (materials st)) \<and> set ms \<subseteq> set (materials st)"
    using that h by (intro markMaterialsAsAnalyzed_present) simp_all
qed

lemma sample_ids:
  "mat_id analyzed_material = ''m1''"
  "mat_id fresh_material = ''m2''"
  "isAnalyzed analyzed_material = Some True"
  "isAnalyzed fresh_material = Some False"
  by (simp_all add: analyzed_material_def fresh_material_def)

lemma ids_unique_samples:
  "ids_unique local_box"
  "ids_unique cloud_box"
  by (simp_all add: ids_unique_def local_box_def cloud_box_def sample_ids
      unconfigured_cloud_def sample_cloud_def)

lemma fresh_sample_tick: "fresh_tick local_box sample_tick"
  by (simp add: fresh_tick_def local_box_def sample_tick_def sample_ids unconfigured_cloud_def)

lemma local_store_ok: "store_ok str_less material_key (localDB local_box)"
  by (simp add: store_ok_def local_box_fields key_before_def material_key_def sample_ids)

theorem isAnalyzed_is_monotone_witness:
  "ids_unique local_box \<and>
   fresh_tick local_box sample_tick \<and>
   store_ok str_less material_key (localDB local_box) \<and>
   stored_step local_box
     (snd (markMaterialsAsAnalyzed [fresh_material] [fresh_material] local_box)) \<and>
   monotone_step local_box
     (snd (markMaterialsAsAnalyzed (materials local_box) [fresh_material] local_box)) \<and>
   monotone_step local_box (removeMaterial ''m1'' ''hello'' True local_box) \<and>
   monotone_step local_box (snd (processFiles [(big_file, sample_tick)] local_box)) \<and>
   localDB (snd (markMaterialsAsAnalyzed (materials local_box) [fresh_material] local_box))
     = [analyzed_material, fresh_material\<lparr>isAnalyzed := Some True\<rparr>] \<and>
   store_getAll (localDB (snd (markMaterialsAsAnalyzed [] [analyzed_material] local_box)))
     = store_getAll (localDB local_box) \<and>
   markMaterialsAsAnalyzed (materials local_box) [analyzed_material] local_box
     = (None, local_box) \<and>
   markMaterialsAsAnalyzed [] [analyzed_material] cloud_box = (None, cloud_box)"
proof -
  note t = isAnalyzed_is_monotone
    [where st = local_box and ms = "[fresh_material]" and i = "''m1''"
       and contentUrl = "''hello''" and confirmed = True
       and files = "[(big_file, sample_tick)]" and rendered = "[fresh_material]"]
  note u = t [THEN conjunct1, rule_format, OF ids_unique_samples(1)]
  have f: "list_all (\<lambda>ft. fresh_tick local_box (snd ft)) [(big_file, sample_tick)]"
    by (simp add: fresh_sample_tick)
  have a0: "stored_step local_box
     (snd (markMaterialsAsAnalyzed [fresh_material] [fresh_material] local_box))"
    by (rule u [THEN conjunct1])
  have a: "monotone_step local_box
     (snd (markMaterialsAsAnalyzed (materials local_box) [fresh_material] local_box))"
    by (rule u [THEN conjunct2, THEN conjunct1])
  have b: "monotone_step local_box (removeMaterial ''m1'' ''hello'' True local_box)"
    by (rule u [THEN conjunct2, THEN conjunct2, THEN conjunct1])
  have c: "monotone_step local_box (snd (processFiles [(big_file, sample_tick)] local_box))"
    by (rule u [THEN conjunct2, THEN conjunct2, THEN conjunct2, rule_format, OF f])
  have d: "localDB (snd (markMaterialsAsAnalyzed (materials local_box) [fresh_material] local_box))
     = [analyzed_material, fresh_material\<lparr>isAnalyzed := Some True\<rparr>]"
    by (simp add: markMaterialsAsAnalyzed_def saveMaterialToLocalDB_def local_box_fields
        put_material_def store_put_def material_key_def key_before_def sample_ids)
  have hl: "\<not> isCloudConfigured local_box \<and> localDB_ok local_box \<and>
    store_ok str_less material_key (localDB local_box) \<and>
    set [analyzed_material] \<subseteq> set (localDB local_box) \<and>
    (\<forall>m \<in> set [analyzed_material]. isAnalyzed m = Some True)"
    using local_store_ok by (simp add: local_box_fields sample_ids)
  have hm: "distinct (map mat_id (materials local_box)) \<and>
    set [analyzed_material] \<subseteq> set (materials local_box)"
    by (simp add: local_box_fields sample_ids)
  note v = isAnalyzed_is_monotone
        [where st = local_box and ms = "[analyzed_material]" and rendered = "[]",
         THEN conjunct2, THEN conjunct2, THEN conjunct2, THEN conjunct2, rule_format, OF hl]
  have e0: "store_getAll (localDB (snd (markMaterialsAsAnalyzed [] [analyzed_material] local_box)))
     = store_getAll (localDB local_box)"
    by (rule v [THEN conjunct2, THEN conjunct1])
  have e: "markMaterialsAsAnalyzed (materials local_box) [analyzed_material] local_box
     = (None, local_box)"
    by (rule v [THEN conjunct2, THEN conjunct2, THEN conjunct2, rule_format, OF hm])
  have hc: "isCloudConfigured cloud_box \<and> (\<forall>m \<in> set [analyzed_material]. isAnalyzed m = Some True)"
    by (simp add: cloud_box_fields sample_ids)
  have g: "markMaterialsAsAnalyzed [] [analyzed_material] cloud_box = (None, cloud_box)"
    by (rule isAnalyzed_is_monotone
        [where st = cloud_box and ms = "[analyzed_material]" and rendered = "[]",
         THEN conjunct2, THEN conjunct2, THEN conjunct2, THEN conjunct1, rule_format, OF hc])
  show ?thesis
    by (intro conjI ids_unique_samples(1) fresh_sample_tick local_store_ok a0 a b c d e0 e g)
qed

lemma student_session_fields:
  "indexedDB_ok student_session"
  "reloads student_session = 0"
  "db_fails student_session = (\<lambda>r. False)"
  "materialsDB student_session = [sample_material, other_material]"
  by (simp_all add: student_session_def)

lemma stale_bundle_props:
  "stale_bundle \<noteq> JNull"
  "materials_of stale_bundle = [stale_material]"
  by (simp_all add: stale_bundle_def materials_of_def)

text \<open>
  Claim C7 as stated fails: an import sets \<^verbatim>\<open>isAnalyzed\<close> back to false. The store holds
  a material that is analysed; the bundle imported holds the same material, under the
  same id, as it was before it was analysed (a bundle exported earlier, or on another
  device). After the import, which runs to completion, the record of that id in the
  store is not analysed.
\<close>

theorem import_sets_isAnalyzed_back:
  "store_get keyPath_id (KStr ''1700000000000.42'') (materialsDB student_session)
     = Some sample_material \<and>
   get_prop sample_material ''isAnalyzed'' = Some (JBool True) \<and>
   materials_of stale_bundle = [stale_material] \<and>
   reloads (handleImport (Some (Parsed stale_bundle)) True student_session)
     = Suc (reloads student_session) \<and>
   store_get keyPath_id (KStr ''1700000000000.42'')
       (materialsDB (handleImport (Some (Parsed stale_bundle)) True student_session))
     = Some stale_material \<and>
   get_prop stale_material ''isAnalyzed'' = Some (JBool False)"
proof -
  have p: "put_each (\<lambda>r. False) [stale_material] [] = (Some [stale_material], True)"
    by (simp add: store_put_def sample_keys)
  note i = handleImport_parsed [OF stale_bundle_props(1) student_session_fields(1)]
  have a: "get_prop sample_material ''isAnalyzed'' = Some (JBool True)"
    "get_prop stale_material ''isAnalyzed'' = Some (JBool False)"
    by (simp_all add: sample_material_def stale_material_def)
  show ?thesis
    unfolding i stale_bundle_props student_session_fields p
    by (simp add: store_get_def sample_keys a)
qed

text \<open>
  The list shown is a different matter when \<^verbatim>\<open>markMaterialsAsAnalyzed\<close> runs with a list
  rendered earlier. Here the function was rendered when neither material was analysed,
  and runs after the first has been marked: the list it hands to \<^verbatim>\<open>setMaterials\<close> shows
  the first material as not analysed again, while the store keeps the mark.
\<close>

lemma stale_render_takes_mark_from_list:
  "\<not> keeps_analyzed (materials local_box)
       (materials (snd (markMaterialsAsAnalyzed
          [analyzed_material\<lparr>isAnalyzed := Some False\<rparr>, fresh_material] [fresh_material]
          local_box))) \<and>
   stored_step local_box
     (snd (markMaterialsAsAnalyzed
        [analyzed_material\<lparr>isAnalyzed := Some False\<rparr>, fresh_material] [fresh_material]
        local_box))"
proof -
  have "materials (snd (markMaterialsAsAnalyzed
          [analyzed_material\<lparr>isAnalyzed := Some False\<rparr>, fresh_material] [fresh_material]
          local_box))
        = [analyzed_material\<lparr>isAnalyzed := Some False\<rparr>,
           fresh_material\<lparr>isAnalyzed := Some True\<rparr>]"
    by (simp add: markMaterialsAsAnalyzed_def local_box_fields sample_ids
        del: save_marked.simps)
  then have "\<not> keeps_analyzed (materials local_box)
       (materials (snd (markMaterialsAsAnalyzed
          [analyzed_material\<lparr>isAnalyzed := Some False\<rparr>, fresh_material] [fresh_material]
          local_box)))"
    by (simp add: keeps_analyzed_def local_box_fields sample_ids)
  moreover have "stored_step local_box
     (snd (markMaterialsAsAnalyzed
        [analyzed_material\<lparr>isAnalyzed := Some False\<rparr>, fresh_material] [fresh_material]
        local_box))"
    using ids_unique_samples(1) mark_keeps [of local_box]
    by (simp add: ids_unique_def stored_step_def)
  ultimately show ?thesis by simp
qed

end
